theory Spec2Isabelle
  imports Main "HOL-Library.Word"
begin

unbundle bit_operations_syntax

section \<open>Bytes and strings\<close>

text \<open>
  A Python \<open>str\<close> is modelled by the \<^typ>\<open>string\<close> of its UTF-8 bytes, so
  \<open>s.encode('utf-8')\<close> reads the bytes off and \<open>b.decode('utf-8')\<close> puts them
  back; concatenation of \<open>str\<close> values is concatenation of their encodings.
\<close>

type_synonym byte = "8 word"
type_synonym word32 = "32 word"

definition encode_utf8 :: "string \<Rightarrow> byte list" where
  "encode_utf8 s = map (\<lambda>c. of_nat (of_char c)) s"

definition decode_utf8 :: "byte list \<Rightarrow> string" where
  "decode_utf8 bs = map (\<lambda>b. char_of (unat b)) bs"

section \<open>SHA-256 (\<open>hashlib.sha256\<close>), after FIPS 180-4\<close>

definition rotr :: "nat \<Rightarrow> word32 \<Rightarrow> word32" where
  "rotr n x = drop_bit n x OR push_bit (32 - n) x"

definition Ch :: "word32 \<Rightarrow> word32 \<Rightarrow> word32 \<Rightarrow> word32" where
  "Ch x y z = (x AND y) XOR (NOT x AND z)"

definition Maj :: "word32 \<Rightarrow> word32 \<Rightarrow> word32 \<Rightarrow> word32" where
  "Maj x y z = (x AND y) XOR (x AND z) XOR (y AND z)"

definition bsig0 :: "word32 \<Rightarrow> word32" where
  "bsig0 x = rotr 2 x XOR rotr 13 x XOR rotr 22 x"

definition bsig1 :: "word32 \<Rightarrow> word32" where
  "bsig1 x = rotr 6 x XOR rotr 11 x XOR rotr 25 x"

definition ssig0 :: "word32 \<Rightarrow> word32" where
  "ssig0 x = rotr 7 x XOR rotr 18 x XOR drop_bit 3 x"

definition ssig1 :: "word32 \<Rightarrow> word32" where
  "ssig1 x = rotr 17 x XOR rotr 19 x XOR drop_bit 10 x"

definition sha256_K :: "word32 list" where
  "sha256_K =
    [1116352408, 1899447441, 3049323471, 3921009573, 961987163, 1508970993, 2453635748, 2870763221,
     3624381080, 310598401, 607225278, 1426881987, 1925078388, 2162078206, 2614888103, 3248222580,
     3835390401, 4022224774, 264347078, 604807628, 770255983, 1249150122, 1555081692, 1996064986,
     2554220882, 2821834349, 2952996808, 3210313671, 3336571891, 3584528711, 113926993, 338241895,
     666307205, 773529912, 1294757372, 1396182291, 1695183700, 1986661051, 2177026350, 2456956037,
     2730485921, 2820302411, 3259730800, 3345764771, 3516065817, 3600352804, 4094571909, 275423344,
     430227734, 506948616, 659060556, 883997877, 958139571, 1322822218, 1537002063, 1747873779,
     1955562222, 2024104815, 2227730452, 2361852424, 2428436474, 2756734187, 3204031479, 3329325298]"

definition sha256_H0 :: "word32 list" where
  "sha256_H0 = [1779033703, 3144134277, 1013904242, 2773480762,
                1359893119, 2600822924, 528734635, 1541459225]"

text \<open>Big-endian packing of four bytes into a word, and back.\<close>

definition be_word32 :: "byte list \<Rightarrow> word32" where
  "be_word32 bs = foldl (\<lambda>acc b. push_bit 8 acc OR ucast b) 0 bs"

definition word32_bytes :: "word32 \<Rightarrow> byte list" where
  "word32_bytes w =
     [ucast (drop_bit 24 w), ucast (drop_bit 16 w AND 0xFF), ucast (drop_bit 8 w AND 0xFF),
      ucast (w AND 0xFF)]"

text \<open>The message length in bits, as eight big-endian bytes.\<close>

definition length_bytes :: "nat \<Rightarrow> byte list" where
  "length_bytes n = map (\<lambda>i. of_nat (n div 2 ^ (8 * i) mod 256)) [7, 6, 5, 4, 3, 2, 1, 0]"

definition sha256_pad :: "byte list \<Rightarrow> byte list" where
  "sha256_pad m =
     m @ 0x80 # replicate ((64 - (length m + 9) mod 64) mod 64) 0 @ length_bytes (8 * length m)"

fun chop :: "nat \<Rightarrow> 'a list \<Rightarrow> 'a list list" where
  "chop n [] = []"
| "chop n (x # xs) = (if n = 0 then [] else take n (x # xs) # chop n (drop n (x # xs)))"

text \<open>
  The message schedule: the sixteen words of the block, then forty-eight more, each from
  the sixteen before it (\<open>W\<^sub>t = \<sigma>\<^sub>1 W\<^sub>t\<^sub>-\<^sub>2 + W\<^sub>t\<^sub>-\<^sub>7 + \<sigma>\<^sub>0 W\<^sub>t\<^sub>-\<^sub>1\<^sub>5 + W\<^sub>t\<^sub>-\<^sub>1\<^sub>6\<close>).
\<close>

fun expand :: "nat \<Rightarrow> word32 list \<Rightarrow> word32 list" where
  "expand (Suc n) [w0, w1, w2, w3, w4, w5, w6, w7, w8, w9, w10, w11, w12, w13, w14, w15] =
     w0 # expand n [w1, w2, w3, w4, w5, w6, w7, w8, w9, w10, w11, w12, w13, w14, w15,
                    ssig1 w14 + w9 + ssig0 w1 + w0]"
| "expand _ ws = ws"

definition message_schedule :: "byte list \<Rightarrow> word32 list" where
  "message_schedule block = expand 48 (map be_word32 (chop 4 block))"

fun round_step :: "word32 list \<Rightarrow> word32 \<times> word32 \<Rightarrow> word32 list" where
  "round_step [a, b, c, d, e, f, g, h] (k, w) =
     (let t1 = h + bsig1 e + Ch e f g + k + w;
          t2 = bsig0 a + Maj a b c
      in [t1 + t2, a, b, c, d + t1, e, f, g])"
| "round_step v _ = v"

definition compress :: "word32 list \<Rightarrow> byte list \<Rightarrow> word32 list" where
  "compress hs block =
     map2 (+) hs (foldl round_step hs (zip sha256_K (message_schedule block)))"

definition sha256 :: "byte list \<Rightarrow> byte list" where
  "sha256 m = concat (map word32_bytes (foldl compress sha256_H0 (chop 64 (sha256_pad m))))"

section \<open>HMAC (\<open>hmac.new(key, msg, hashlib.sha256).digest()\<close>), after RFC 2104\<close>

text \<open>A key longer than the block is hashed first; the key is then padded with zeros.\<close>

definition hmac_key_block :: "byte list \<Rightarrow> byte list" where
  "hmac_key_block key =
     (let k = (if 64 < length key then sha256 key else key)
      in k @ replicate (64 - length k) 0)"

definition hmac_sha256 :: "byte list \<Rightarrow> byte list \<Rightarrow> byte list" where
  "hmac_sha256 key msg =
     sha256 (map (\<lambda>b. b XOR 0x5C) (hmac_key_block key)
             @ sha256 (map (\<lambda>b. b XOR 0x36) (hmac_key_block key) @ msg))"

section \<open>Base64 (\<open>base64.b64encode\<close>), after RFC 4648\<close>

definition b64_alphabet :: "byte list" where
  "b64_alphabet =
     encode_utf8 ''ABCDEFGHIJKLMNOPQRSTUVWXYZabcdefghijklmnopqrstuvwxyz0123456789+/''"

definition b64_char :: "nat \<Rightarrow> byte" where
  "b64_char i = b64_alphabet ! (i mod 64)"

fun b64encode :: "byte list \<Rightarrow> byte list" where
  "b64encode (a # b # c # rest) =
     (let n = unat a * 65536 + unat b * 256 + unat c
      in b64_char (n div 262144) # b64_char (n div 4096) # b64_char (n div 64) # b64_char n
         # b64encode rest)"
| "b64encode [a, b] =
     (let n = unat a * 65536 + unat b * 256
      in [b64_char (n div 262144), b64_char (n div 4096), b64_char (n div 64), 0x3D])"
| "b64encode [a] =
     (let n = unat a * 65536
      in [b64_char (n div 262144), b64_char (n div 4096), 0x3D, 0x3D])"
| "b64encode [] = []"

section \<open>Python values, exceptions and configuration\<close>

text \<open>
  The exceptions the module can meet. \<open>HTTPError\<close>, \<open>ConnectionError\<close>, \<open>Timeout\<close>
  and \<open>InvalidJSONError\<close> are classes of \<open>requests.exceptions\<close> and derive from
  \<open>RequestException\<close>; the others are built-in and do not. All of them derive from
  \<open>Exception\<close>.
\<close>

datatype exn = HTTPError | ConnectionError | Timeout | InvalidJSONError
  | AttributeError | TypeError | ValueError

fun is_RequestException :: "exn \<Rightarrow> bool" where
  "is_RequestException HTTPError = True"
| "is_RequestException ConnectionError = True"
| "is_RequestException Timeout = True"
| "is_RequestException InvalidJSONError = True"
| "is_RequestException AttributeError = False"
| "is_RequestException TypeError = False"
| "is_RequestException ValueError = False"

text \<open>What a sender hands back: \<open>None\<close> (PushPlus, WxPusher) or a boolean.\<close>

datatype pyval = PyNone | PyBool bool

datatype json = JNull | JBool bool | JInt int | JStr string
  | JArr "json list" | JObj "(string \<times> json) list"

text \<open>
  The constants imported from \<open>config\<close>; each is a \<open>str\<close> or \<open>None\<close>. The two
  proxy variables are read from the process environment by \<open>os.getenv\<close>.
\<close>

record config =
  PUSHPLUS_TOKEN :: "string option"
  TELEGRAM_CHAT_ID :: "string option"
  TELEGRAM_BOT_TOKEN :: "string option"
  WXPUSHER_SPT :: "string option"
  DINGTALK_WEBHOOK :: "string option"
  DINGTALK_SECRET :: "string option"
  http_proxy :: "string option"
  https_proxy :: "string option"

definition py_str :: "string option \<Rightarrow> string" where
  "py_str v = (case v of None \<Rightarrow> ''None'' | Some s \<Rightarrow> s)"

definition json_of :: "string option \<Rightarrow> json" where
  "json_of v = (case v of None \<Rightarrow> JNull | Some s \<Rightarrow> JStr s)"

definition truthy :: "string option \<Rightarrow> bool" where
  "truthy v = (case v of None \<Rightarrow> False | Some s \<Rightarrow> s \<noteq> [])"

text \<open>\<open>str\<close> of an integer: its decimal digits, with a sign when negative.\<close>

definition digit_char :: "nat \<Rightarrow> char" where
  "digit_char d = char_of (48 + d)"

function str_nat :: "nat \<Rightarrow> string" where
  "str_nat n = (if n < 10 then [digit_char n] else str_nat (n div 10) @ [digit_char (n mod 10)])"
  by pat_completeness auto
termination
  by (relation "measure (\<lambda>n. n)") auto

definition str_int :: "int \<Rightarrow> string" where
  "str_int i = (if i < 0 then CHR ''-'' # str_nat (nat (- i)) else str_nat (nat i))"

section \<open>The signature helper\<close>

text \<open>
  \<open>generate_dingtalk_sign(timestamp, secret)\<close>. With \<open>secret = None\<close> the f-string is
  built, and \<open>secret.encode\<close> then raises \<open>AttributeError\<close>.
\<close>

definition generate_dingtalk_sign :: "string \<Rightarrow> string option \<Rightarrow> exn + string" where
  "generate_dingtalk_sign timestamp secret =
     (case secret of
        None \<Rightarrow> Inl AttributeError
      | Some sec \<Rightarrow>
          (let string_to_sign = timestamp @ [CHR 0x0A] @ sec;
               hmac_code = hmac_sha256 (encode_utf8 sec) (encode_utf8 string_to_sign)
           in Inr (decode_utf8 (b64encode hmac_code))))"

text \<open>
  The helper as the specification words it: the base64 text of the HMAC-SHA256 keyed with
  the secret's bytes, over the bytes of timestamp, newline, secret.
\<close>

definition dingtalk_sign_spec :: "string \<Rightarrow> string \<Rightarrow> string" where
  "dingtalk_sign_spec timestamp sec =
     decode_utf8 (b64encode (hmac_sha256 (encode_utf8 sec)
       (encode_utf8 timestamp @ [0x0A] @ encode_utf8 sec)))"

section \<open>The outside world: HTTP, randomness, clock, log\<close>

datatype http_method = GET | POST

text \<open>\<open>data=json.dumps(d).encode('utf-8')\<close> against \<open>json=d\<close>.\<close>

datatype payload = NoBody | Data json | Json json

record request =
  req_method :: http_method
  req_url :: string
  req_payload :: payload
  req_headers :: "(string \<times> string) list"
  req_proxies :: "(string option \<times> string option) option"
  req_timeout :: nat

text \<open>
  \<open>req_proxies\<close> is the \<open>proxies\<close> argument of the call, \<open>None\<close> when the call leaves it
  out. Leaving it out does not make the call direct: \<open>requests\<close> (a session trusts the
  environment) then takes the proxies from \<open>http_proxy\<close> and \<open>https_proxy\<close>. With the
  argument given, its entries stand, and an entry that is \<open>None\<close> means no proxy for that
  scheme. \<open>https_route\<close> is the proxy that carries a call to an \<open>https\<close> URL, \<open>None\<close> when
  the call goes out direct (an empty value counts as none).
\<close>

definition effective_proxies :: "config \<Rightarrow> request \<Rightarrow> string option \<times> string option" where
  "effective_proxies cfg rq =
     (case req_proxies rq of None \<Rightarrow> (http_proxy cfg, https_proxy cfg) | Some p \<Rightarrow> p)"

definition https_route :: "config \<Rightarrow> request \<Rightarrow> string option" where
  "https_route cfg rq =
     (case snd (effective_proxies cfg rq) of
        None \<Rightarrow> None
      | Some p \<Rightarrow> if p = [] then None else Some p)"

text \<open>
  A response: its status, its body text, and what \<open>response.json()\<close> makes of the body
  (\<open>None\<close> when the body is not JSON). Parsing is the library's; the model takes its
  result as given. JSON numbers with a fraction are outside the model.
\<close>

record response =
  status_code :: nat
  resp_text :: string
  resp_json :: "json option"

text \<open>
  The world answers the \<open>k\<close>-th HTTP call, the \<open>k\<close>-th random draw and the \<open>k\<close>-th
  reading of the clock (\<open>round(time.time() * 1000)\<close>, in milliseconds).
\<close>

record world =
  http :: "nat \<Rightarrow> request \<Rightarrow> exn + response"
  entropy :: "nat \<Rightarrow> nat"
  clock :: "nat \<Rightarrow> int"

datatype level = INFO | ERROR

datatype log_msg =
    PushPlusResponse string | PushPlusFailed exn | RetryIn int
  | TelegramResponse string | TelegramProxyFailed exn | TelegramFailed exn
  | WxPusherResponse string | WxPusherFailed exn
  | DingTalkNoWebhook | DingTalkSuccess | DingTalkFailed string | DingTalkException exn
  | DingTalkRetry int

datatype event = Http request | Sleep int | Log level log_msg

record state =
  http_calls :: nat
  draws :: nat
  clock_reads :: nat
  trace :: "event list"

definition requests_send :: "world \<Rightarrow> request \<Rightarrow> state \<Rightarrow> (exn + response) \<times> state" where
  "requests_send w rq s =
     (http w (http_calls s) rq,
      s\<lparr>http_calls := Suc (http_calls s), trace := trace s @ [Http rq]\<rparr>)"

text \<open>\<open>Response.raise_for_status\<close> raises for the 4xx and 5xx codes, and for no other.\<close>

definition raise_for_status :: "response \<Rightarrow> exn + unit" where
  "raise_for_status r =
     (if 400 \<le> status_code r \<and> status_code r < 600 then Inl HTTPError else Inr ())"

text \<open>
  \<open>random.randint(a, b)\<close>: an integer of the closed range from \<open>a\<close> to \<open>b\<close>, both
  ends included; \<open>randint_value w a b k\<close> is the value of the \<open>k\<close>-th draw.
\<close>

definition randint_value :: "world \<Rightarrow> int \<Rightarrow> int \<Rightarrow> nat \<Rightarrow> int" where
  "randint_value w a b k = a + int (entropy w k) mod (b - a + 1)"

definition randint :: "world \<Rightarrow> int \<Rightarrow> int \<Rightarrow> state \<Rightarrow> int \<times> state" where
  "randint w a b s = (randint_value w a b (draws s), s\<lparr>draws := Suc (draws s)\<rparr>)"

definition sleep :: "int \<Rightarrow> state \<Rightarrow> state" where
  "sleep d s = s\<lparr>trace := trace s @ [Sleep d]\<rparr>"

definition logger :: "level \<Rightarrow> log_msg \<Rightarrow> state \<Rightarrow> state" where
  "logger l m s = s\<lparr>trace := trace s @ [Log l m]\<rparr>"

definition time_ms :: "world \<Rightarrow> state \<Rightarrow> int \<times> state" where
  "time_ms w s = (clock w (clock_reads s), s\<lparr>clock_reads := Suc (clock_reads s)\<rparr>)"

text \<open>Draw the waiting time, log it, sleep: the tail of each failed attempt but the last.\<close>

definition wait_random :: "world \<Rightarrow> int \<Rightarrow> int \<Rightarrow> (int \<Rightarrow> log_msg) \<Rightarrow> state \<Rightarrow> state" where
  "wait_random w a b msg s =
     (case randint w a b s of (sleep_time, s1) \<Rightarrow> sleep sleep_time (logger INFO (msg sleep_time) s1))"

text \<open>What a trace shows.\<close>

fun https_of :: "event list \<Rightarrow> request list" where
  "https_of [] = []"
| "https_of (Http rq # es) = rq # https_of es"
| "https_of (_ # es) = https_of es"

fun sleeps_of :: "event list \<Rightarrow> int list" where
  "sleeps_of [] = []"
| "sleeps_of (Sleep d # es) = d # sleeps_of es"
| "sleeps_of (_ # es) = sleeps_of es"

fun logs_of :: "event list \<Rightarrow> (level \<times> log_msg) list" where
  "logs_of [] = []"
| "logs_of (Log l m # es) = (l, m) # logs_of es"
| "logs_of (_ # es) = logs_of es"

section \<open>The notifier\<close>

text \<open>The fields set by \<open>PushNotification.__init__\<close>; the two URL templates are functions.\<close>

record notifier =
  pushplus_url :: string
  telegram_url :: "string \<Rightarrow> string"
  headers :: "(string \<times> string) list"
  proxies :: "string option \<times> string option"
  wxpusher_simple_url :: "string \<Rightarrow> string \<Rightarrow> string"

definition PushNotification :: "config \<Rightarrow> notifier" where
  "PushNotification cfg =
     \<lparr>pushplus_url = ''https://www.pushplus.plus/send'',
      telegram_url = (\<lambda>t. ''https://api.telegram.org/bot'' @ t @ ''/sendMessage''),
      headers = [(''Content-Type'', ''application/json'')],
      proxies = (http_proxy cfg, https_proxy cfg),
      wxpusher_simple_url =
        (\<lambda>spt content. ''https://wxpusher.zjiecode.com/api/send/message/'' @ spt @ ''/'' @ content)\<rparr>"

text \<open>The fixed titles, as their UTF-8 bytes.\<close>

definition pushplus_title :: string where
  "pushplus_title =
     [CHR 0xE5, CHR 0xBE, CHR 0xAE, CHR 0xE4, CHR 0xBF, CHR 0xA1, CHR 0xE9, CHR 0x98, CHR 0x85,
      CHR 0xE8, CHR 0xAF, CHR 0xBB, CHR 0xE6, CHR 0x8E, CHR 0xA8, CHR 0xE9, CHR 0x80, CHR 0x81,
      CHR 0x2E, CHR 0x2E, CHR 0x2E]"

definition dingtalk_title :: string where
  "dingtalk_title =
     [CHR 0xE5, CHR 0xBE, CHR 0xAE, CHR 0xE4, CHR 0xBF, CHR 0xA1, CHR 0xE9, CHR 0x98, CHR 0x85,
      CHR 0xE8, CHR 0xAF, CHR 0xBB, CHR 0xE9, CHR 0x80, CHR 0x9A, CHR 0xE7, CHR 0x9F, CHR 0xA5]"

definition dingtalk_heading :: string where
  "dingtalk_heading =
     [CHR 0x23, CHR 0x23, CHR 0x23, CHR 0x20, CHR 0xE5, CHR 0xBE, CHR 0xAE, CHR 0xE4, CHR 0xBF,
      CHR 0xA1, CHR 0xE9, CHR 0x98, CHR 0x85, CHR 0xE8, CHR 0xAF, CHR 0xBB, CHR 0xE4, CHR 0xBB,
      CHR 0xBB, CHR 0xE5, CHR 0x8A, CHR 0xA1, CHR 0xE5, CHR 0xAE, CHR 0x8C, CHR 0xE6, CHR 0x88,
      CHR 0x90, CHR 0x0A]"

subsection \<open>PushPlus\<close>

definition pushplus_request :: "notifier \<Rightarrow> string \<Rightarrow> string option \<Rightarrow> request" where
  "pushplus_request nf content token =
     \<lparr>req_method = POST, req_url = pushplus_url nf,
      req_payload = Data (JObj [(''token'', json_of token), (''title'', JStr pushplus_title),
                                (''content'', JStr content)]),
      req_headers = headers nf, req_proxies = None, req_timeout = 10\<rparr>"

text \<open>The body of the \<open>try\<close>: post, \<open>raise_for_status\<close>, log the response.\<close>

definition pushplus_try ::
  "world \<Rightarrow> notifier \<Rightarrow> string \<Rightarrow> string option \<Rightarrow> state \<Rightarrow> (exn + unit) \<times> state" where
  "pushplus_try w nf content token s =
     (case requests_send w (pushplus_request nf content token) s of
        (Inl e, s1) \<Rightarrow> (Inl e, s1)
      | (Inr r, s1) \<Rightarrow>
          (case raise_for_status r of
             Inl e \<Rightarrow> (Inl e, s1)
           | Inr _ \<Rightarrow> (Inr (), logger INFO (PushPlusResponse (resp_text r)) s1)))"

text \<open>
  \<open>for attempt in range(attempts)\<close>: \<open>break\<close> on success; \<open>except RequestException\<close>
  logs, waits unless this was the last attempt, and goes round again; an exception of
  another class leaves the function.
\<close>

function push_pushplus_loop ::
  "world \<Rightarrow> notifier \<Rightarrow> string \<Rightarrow> string option \<Rightarrow> nat \<Rightarrow> nat \<Rightarrow> state
     \<Rightarrow> (exn + pyval) \<times> state" where
  "push_pushplus_loop w nf content token attempts attempt s =
     (if attempt < attempts then
        (case pushplus_try w nf content token s of
           (Inr _, s1) \<Rightarrow> (Inr PyNone, s1)
         | (Inl e, s1) \<Rightarrow>
             if is_RequestException e then
               push_pushplus_loop w nf content token attempts (Suc attempt)
                 (if attempt < attempts - 1
                  then wait_random w 180 360 RetryIn (logger ERROR (PushPlusFailed e) s1)
                  else logger ERROR (PushPlusFailed e) s1)
             else (Inl e, s1))
      else (Inr PyNone, s))"
  by pat_completeness auto
termination
  by (relation "measure (\<lambda>(w, nf, content, token, attempts, attempt, s). attempts - attempt)")
    auto

definition push_pushplus ::
  "world \<Rightarrow> notifier \<Rightarrow> string \<Rightarrow> string option \<Rightarrow> state \<Rightarrow> (exn + pyval) \<times> state" where
  "push_pushplus w nf content token s = push_pushplus_loop w nf content token 5 0 s"

subsection \<open>Telegram\<close>

text \<open>
  The two calls differ in one thing: the first passes \<open>proxies=self.proxies\<close>, the second
  passes no \<open>proxies\<close> argument.
\<close>

definition telegram_request ::
  "notifier \<Rightarrow> string \<Rightarrow> string option \<Rightarrow> string option \<Rightarrow> bool \<Rightarrow> request" where
  "telegram_request nf content bot_token chat_id with_proxies =
     \<lparr>req_method = POST, req_url = telegram_url nf (py_str bot_token),
      req_payload = Json (JObj [(''chat_id'', json_of chat_id), (''text'', JStr content)]),
      req_headers = [], req_proxies = (if with_proxies then Some (proxies nf) else None),
      req_timeout = 30\<rparr>"

text \<open>
  The inner \<open>try\<close>: the second call, after the first has failed. The source's comment
  calls it the direct one.
\<close>

definition telegram_fallback ::
  "world \<Rightarrow> notifier \<Rightarrow> string \<Rightarrow> string option \<Rightarrow> string option \<Rightarrow> state
     \<Rightarrow> (exn + pyval) \<times> state" where
  "telegram_fallback w nf content bot_token chat_id s =
     (case requests_send w (telegram_request nf content bot_token chat_id False) s of
        (Inl e, s1) \<Rightarrow> (Inr (PyBool False), logger ERROR (TelegramFailed e) s1)
      | (Inr r, s1) \<Rightarrow>
          (case raise_for_status r of
             Inl e \<Rightarrow> (Inr (PyBool False), logger ERROR (TelegramFailed e) s1)
           | Inr _ \<Rightarrow> (Inr (PyBool True), s1)))"

definition push_telegram ::
  "world \<Rightarrow> notifier \<Rightarrow> string \<Rightarrow> string option \<Rightarrow> string option \<Rightarrow> state
     \<Rightarrow> (exn + pyval) \<times> state" where
  "push_telegram w nf content bot_token chat_id s =
     (case requests_send w (telegram_request nf content bot_token chat_id True) s of
        (Inl e, s1) \<Rightarrow>
          telegram_fallback w nf content bot_token chat_id
            (logger ERROR (TelegramProxyFailed e) s1)
      | (Inr r, s1) \<Rightarrow>
          (case raise_for_status r of
             Inl e \<Rightarrow>
               telegram_fallback w nf content bot_token chat_id
                 (logger ERROR (TelegramProxyFailed e)
                    (logger INFO (TelegramResponse (resp_text r)) s1))
           | Inr _ \<Rightarrow> (Inr (PyBool True), logger INFO (TelegramResponse (resp_text r)) s1)))"

subsection \<open>WxPusher\<close>

definition wxpusher_request :: "notifier \<Rightarrow> string \<Rightarrow> string option \<Rightarrow> request" where
  "wxpusher_request nf content spt =
     \<lparr>req_method = GET, req_url = wxpusher_simple_url nf (py_str spt) content,
      req_payload = NoBody, req_headers = [], req_proxies = None, req_timeout = 10\<rparr>"

definition wxpusher_try ::
  "world \<Rightarrow> notifier \<Rightarrow> string \<Rightarrow> string option \<Rightarrow> state \<Rightarrow> (exn + unit) \<times> state" where
  "wxpusher_try w nf content spt s =
     (case requests_send w (wxpusher_request nf content spt) s of
        (Inl e, s1) \<Rightarrow> (Inl e, s1)
      | (Inr r, s1) \<Rightarrow>
          (case raise_for_status r of
             Inl e \<Rightarrow> (Inl e, s1)
           | Inr _ \<Rightarrow> (Inr (), logger INFO (WxPusherResponse (resp_text r)) s1)))"

function push_wxpusher_loop ::
  "world \<Rightarrow> notifier \<Rightarrow> string \<Rightarrow> string option \<Rightarrow> nat \<Rightarrow> nat \<Rightarrow> state
     \<Rightarrow> (exn + pyval) \<times> state" where
  "push_wxpusher_loop w nf content spt attempts attempt s =
     (if attempt < attempts then
        (case wxpusher_try w nf content spt s of
           (Inr _, s1) \<Rightarrow> (Inr PyNone, s1)
         | (Inl e, s1) \<Rightarrow>
             if is_RequestException e then
               push_wxpusher_loop w nf content spt attempts (Suc attempt)
                 (if attempt < attempts - 1
                  then wait_random w 180 360 RetryIn (logger ERROR (WxPusherFailed e) s1)
                  else logger ERROR (WxPusherFailed e) s1)
             else (Inl e, s1))
      else (Inr PyNone, s))"
  by pat_completeness auto
termination
  by (relation "measure (\<lambda>(w, nf, content, spt, attempts, attempt, s). attempts - attempt)")
    auto

definition push_wxpusher ::
  "world \<Rightarrow> notifier \<Rightarrow> string \<Rightarrow> string option \<Rightarrow> state \<Rightarrow> (exn + pyval) \<times> state" where
  "push_wxpusher w nf content spt s = push_wxpusher_loop w nf content spt 5 0 s"

subsection \<open>DingTalk\<close>

definition dingtalk_request ::
  "notifier \<Rightarrow> config \<Rightarrow> string \<Rightarrow> string \<Rightarrow> string \<Rightarrow> request" where
  "dingtalk_request nf cfg content timestamp sign =
     \<lparr>req_method = POST,
      req_url = py_str (DINGTALK_WEBHOOK cfg) @ ''&timestamp='' @ timestamp @ ''&sign='' @ sign,
      req_payload = Json (JObj [(''msgtype'', JStr ''markdown''),
                                (''markdown'', JObj [(''title'', JStr dingtalk_title),
                                                     (''text'', JStr (dingtalk_heading @ content))])]),
      req_headers = headers nf, req_proxies = None, req_timeout = 15\<rparr>"

text \<open>\<open>response.json()\<close>, \<open>.get("errcode")\<close> and \<open>== 0\<close>.\<close>

definition response_json :: "response \<Rightarrow> exn + json" where
  "response_json r = (case resp_json r of None \<Rightarrow> Inl InvalidJSONError | Some j \<Rightarrow> Inr j)"

fun json_get :: "json \<Rightarrow> string \<Rightarrow> exn + json" where
  "json_get (JObj kvs) k = Inr (case map_of (rev kvs) k of None \<Rightarrow> JNull | Some v \<Rightarrow> v)"
| "json_get _ k = Inl AttributeError"

fun py_eq_0 :: "json \<Rightarrow> bool" where
  "py_eq_0 (JInt n) = (n = 0)"
| "py_eq_0 (JBool b) = (\<not> b)"
| "py_eq_0 _ = False"

text \<open>
  From \<open>raise_for_status\<close> to the test of \<open>errcode\<close>: an exception, or whether the test
  held.
\<close>

definition dingtalk_check :: "response \<Rightarrow> exn + bool" where
  "dingtalk_check r =
     (case raise_for_status r of
        Inl e \<Rightarrow> Inl e
      | Inr _ \<Rightarrow>
          (case response_json r of
             Inl e \<Rightarrow> Inl e
           | Inr j \<Rightarrow>
               (case json_get j ''errcode'' of
                  Inl e \<Rightarrow> Inl e
                | Inr v \<Rightarrow> Inr (py_eq_0 v))))"

text \<open>
  One pass through the \<open>try\<close> with its \<open>except Exception\<close>: \<open>True\<close> when the pass
  returned \<open>True\<close> from the function, \<open>False\<close> when control reached the retry code.
\<close>

definition dingtalk_try ::
  "world \<Rightarrow> notifier \<Rightarrow> config \<Rightarrow> string \<Rightarrow> state \<Rightarrow> bool \<times> state" where
  "dingtalk_try w nf cfg content s =
     (case time_ms w s of
        (ms, s1) \<Rightarrow>
          (case generate_dingtalk_sign (str_int ms) (DINGTALK_SECRET cfg) of
             Inl e \<Rightarrow> (False, logger ERROR (DingTalkException e) s1)
           | Inr sign \<Rightarrow>
               (case requests_send w (dingtalk_request nf cfg content (str_int ms) sign) s1 of
                  (Inl e, s2) \<Rightarrow> (False, logger ERROR (DingTalkException e) s2)
                | (Inr r, s2) \<Rightarrow>
                    (case dingtalk_check r of
                       Inl e \<Rightarrow> (False, logger ERROR (DingTalkException e) s2)
                     | Inr ok \<Rightarrow>
                         if ok then (True, logger INFO DingTalkSuccess s2)
                         else (False, logger ERROR (DingTalkFailed (resp_text r)) s2)))))"

function push_dingtalk_loop ::
  "world \<Rightarrow> notifier \<Rightarrow> config \<Rightarrow> string \<Rightarrow> nat \<Rightarrow> nat \<Rightarrow> state \<Rightarrow> (exn + pyval) \<times> state" where
  "push_dingtalk_loop w nf cfg content attempts attempt s =
     (if attempt < attempts then
        (case dingtalk_try w nf cfg content s of
           (ok, s1) \<Rightarrow>
             if ok then (Inr (PyBool True), s1)
             else push_dingtalk_loop w nf cfg content attempts (Suc attempt)
                    (if attempt < attempts - 1 then wait_random w 2 5 DingTalkRetry s1 else s1))
      else (Inr (PyBool False), s))"
  by pat_completeness auto
termination
  by (relation "measure (\<lambda>(w, nf, cfg, content, attempts, attempt, s). attempts - attempt)")
    auto

definition push_dingtalk ::
  "world \<Rightarrow> notifier \<Rightarrow> config \<Rightarrow> string \<Rightarrow> state \<Rightarrow> (exn + pyval) \<times> state" where
  "push_dingtalk w nf cfg content s =
     (if \<not> truthy (DINGTALK_WEBHOOK cfg)
      then (Inr (PyBool False), logger ERROR DingTalkNoWebhook s)
      else push_dingtalk_loop w nf cfg content 3 0 s)"

section \<open>The entry point\<close>

definition push :: "world \<Rightarrow> config \<Rightarrow> string \<Rightarrow> string \<Rightarrow> state \<Rightarrow> (exn + pyval) \<times> state" where
  "push w cfg content method s =
     (let notifier = PushNotification cfg in
      if method = ''pushplus'' then push_pushplus w notifier content (PUSHPLUS_TOKEN cfg) s
      else if method = ''telegram'' then
        push_telegram w notifier content (TELEGRAM_BOT_TOKEN cfg) (TELEGRAM_CHAT_ID cfg) s
      else if method = ''wxpusher'' then push_wxpusher w notifier content (WXPUSHER_SPT cfg) s
      else if method = ''dingtalk'' then push_dingtalk w notifier cfg content s
      else (Inl ValueError, s))"

section \<open>Vocabulary of the properties\<close>

text \<open>
  What one attempt raises, given what the HTTP call produced: the call's own exception,
  or the \<open>HTTPError\<close> of \<open>raise_for_status\<close>.
\<close>

definition attempt_raises :: "exn + response \<Rightarrow> exn option" where
  "attempt_raises out =
     (case out of
        Inl e \<Rightarrow> Some e
      | Inr r \<Rightarrow> (case raise_for_status r of Inl e \<Rightarrow> Some e | Inr _ \<Rightarrow> None))"

text \<open>The transport fails: the attempt raises a \<open>RequestException\<close>.\<close>

definition transport_fails :: "exn + response \<Rightarrow> bool" where
  "transport_fails out =
     (case attempt_raises out of None \<Rightarrow> False | Some e \<Rightarrow> is_RequestException e)"

definition transport_succeeds :: "exn + response \<Rightarrow> bool" where
  "transport_succeeds out = (attempt_raises out = None)"

text \<open>The calls from number \<open>h\<close> on: \<open>n\<close> failures, then a success; \<open>n\<close> failures.\<close>

definition always_fails :: "world \<Rightarrow> request \<Rightarrow> nat \<Rightarrow> nat \<Rightarrow> bool" where
  "always_fails w rq h n = list_all (\<lambda>i. transport_fails (http w (h + i) rq)) [0..<n]"

definition fails_then_succeeds :: "world \<Rightarrow> request \<Rightarrow> nat \<Rightarrow> nat \<Rightarrow> bool" where
  "fails_then_succeeds w rq h n =
     (always_fails w rq h n \<and> transport_succeeds (http w (h + n) rq))"

text \<open>The calls and sleeps of a trace, in order, without the log lines.\<close>

fun wire :: "event list \<Rightarrow> event list" where
  "wire [] = []"
| "wire (Log l m # es) = wire es"
| "wire (e # es) = e # wire es"

text \<open>\<open>n\<close> failed attempts, each followed by its sleep, the draws taken from number \<open>d\<close>.\<close>

definition retries :: "world \<Rightarrow> request \<Rightarrow> int \<Rightarrow> int \<Rightarrow> nat \<Rightarrow> nat \<Rightarrow> event list" where
  "retries w rq a b d n =
     concat (map (\<lambda>i. [Http rq, Sleep (randint_value w a b (d + i))]) [0..<n])"

definition state0 :: state where
  "state0 = \<lparr>http_calls = 0, draws = 0, clock_reads = 0, trace = []\<rparr>"

text \<open>
  The DingTalk attempt that reads the clock for the \<open>c\<close>-th time: the HTTP call it makes
  (none when signing raises), and whether it is a qualifying success when that call is
  HTTP call number \<open>h\<close>.
\<close>

definition dingtalk_call :: "world \<Rightarrow> notifier \<Rightarrow> config \<Rightarrow> string \<Rightarrow> nat \<Rightarrow> event list" where
  "dingtalk_call w nf cfg content c =
     (case generate_dingtalk_sign (str_int (clock w c)) (DINGTALK_SECRET cfg) of
        Inl e \<Rightarrow> []
      | Inr sign \<Rightarrow> [Http (dingtalk_request nf cfg content (str_int (clock w c)) sign)])"

definition dingtalk_attempt_ok ::
  "world \<Rightarrow> notifier \<Rightarrow> config \<Rightarrow> string \<Rightarrow> nat \<Rightarrow> nat \<Rightarrow> bool" where
  "dingtalk_attempt_ok w nf cfg content h c =
     (case generate_dingtalk_sign (str_int (clock w c)) (DINGTALK_SECRET cfg) of
        Inl e \<Rightarrow> False
      | Inr sign \<Rightarrow>
          (case http w h (dingtalk_request nf cfg content (str_int (clock w c)) sign) of
             Inl e \<Rightarrow> False
           | Inr r \<Rightarrow> dingtalk_check r = Inr True))"

text \<open>The same for the \<open>k\<close>-th attempt of a run of the sender that starts in state \<open>s\<close>.\<close>

definition dingtalk_ok_at ::
  "world \<Rightarrow> notifier \<Rightarrow> config \<Rightarrow> string \<Rightarrow> state \<Rightarrow> nat \<Rightarrow> bool" where
  "dingtalk_ok_at w nf cfg content s k =
     dingtalk_attempt_ok w nf cfg content (http_calls s + k) (clock_reads s + k)"

definition dingtalk_call_at ::
  "world \<Rightarrow> notifier \<Rightarrow> config \<Rightarrow> string \<Rightarrow> state \<Rightarrow> nat \<Rightarrow> event list" where
  "dingtalk_call_at w nf cfg content s k = dingtalk_call w nf cfg content (clock_reads s + k)"

text \<open>The sleep window as the specification words it: from 180 up to, not including, 360.\<close>

definition spec_sleep_window :: "int \<Rightarrow> bool" where
  "spec_sleep_window d = (180 \<le> d \<and> d < 360)"

definition is_2xx :: "response \<Rightarrow> bool" where
  "is_2xx r = (200 \<le> status_code r \<and> status_code r < 300)"

section \<open>Concrete worlds\<close>

definition config0 :: config where
  "config0 =
     \<lparr>PUSHPLUS_TOKEN = Some ''tok'', TELEGRAM_CHAT_ID = Some ''42'',
      TELEGRAM_BOT_TOKEN = Some ''bot'', WXPUSHER_SPT = Some ''spt'',
      DINGTALK_WEBHOOK = Some ''https://oapi.dingtalk.com/robot/send?access_token=t'',
      DINGTALK_SECRET = Some ''testsecret'', http_proxy = None, https_proxy = None\<rparr>"

definition response_ok :: response where
  "response_ok =
     \<lparr>status_code = 200, resp_text = ''{\"errcode\": 0}'',
      resp_json = Some (JObj [(''errcode'', JInt 0)])\<rparr>"

text \<open>Two timeouts, then a good answer.\<close>

definition world_flaky :: world where
  "world_flaky =
     \<lparr>http = (\<lambda>k rq. if k < 2 then Inl Timeout else Inr response_ok),
      entropy = (\<lambda>k. 7), clock = (\<lambda>k. 1700000000000 + int k)\<rparr>"

text \<open>No connection, ever; every draw comes out at the top of its range.\<close>

definition world_down :: world where
  "world_down =
     \<lparr>http = (\<lambda>k rq. Inl ConnectionError),
      entropy = (\<lambda>k. 180), clock = (\<lambda>k. 1700000000000 + int k)\<rparr>"

text \<open>The client lets a \<open>ValueError\<close> through.\<close>

definition world_value_error :: world where
  "world_value_error =
     \<lparr>http = (\<lambda>k rq. Inl ValueError),
      entropy = (\<lambda>k. 0), clock = (\<lambda>k. 1700000000000 + int k)\<rparr>"

text \<open>HTTP 200 with \<open>errcode\<close> 1, every time.\<close>

definition response_errcode1 :: response where
  "response_errcode1 =
     \<lparr>status_code = 200, resp_text = ''{\"errcode\":1,\"errmsg\":\"x\"}'',
      resp_json = Some (JObj [(''errcode'', JInt 1), (''errmsg'', JStr ''x'')])\<rparr>"

definition world_errcode1 :: world where
  "world_errcode1 =
     \<lparr>http = (\<lambda>k rq. Inr response_errcode1),
      entropy = (\<lambda>k. k), clock = (\<lambda>k. 1700000000000 + 3000 * int k)\<rparr>"

text \<open>HTTP 300 (no redirect is followed) with \<open>errcode\<close> 0.\<close>

definition response_300 :: response where
  "response_300 =
     \<lparr>status_code = 300, resp_text = ''{\"errcode\": 0}'',
      resp_json = Some (JObj [(''errcode'', JInt 0)])\<rparr>"

definition world_300 :: world where
  "world_300 =
     \<lparr>http = (\<lambda>k rq. Inr response_300),
      entropy = (\<lambda>k. k), clock = (\<lambda>k. 1700000000000 + 3000 * int k)\<rparr>"

text \<open>
  An environment that sets both proxy variables, and the world of that environment in
  which the proxy is down while the direct route works: a call is answered when it goes
  out direct and meets a connection error when it goes through the proxy.
\<close>

definition config_proxy :: config where
  "config_proxy =
     config0\<lparr>http_proxy := Some ''http://127.0.0.1:7890'',
             https_proxy := Some ''http://127.0.0.1:7890''\<rparr>"

definition world_proxy_down :: "config \<Rightarrow> world" where
  "world_proxy_down cfg =
     \<lparr>http = (\<lambda>k rq. if https_route cfg rq = None then Inr response_ok
                      else Inl ConnectionError),
      entropy = (\<lambda>k. 0), clock = (\<lambda>k. 1700000000000 + int k)\<rparr>"

section \<open>Effects of the primitive operations\<close>

declare push_pushplus_loop.simps [simp del]
declare push_wxpusher_loop.simps [simp del]
declare push_dingtalk_loop.simps [simp del]
declare str_nat.simps [simp del]

lemma wire_append: "wire (xs @ ys) = wire xs @ wire ys"
  by (induction xs rule: wire.induct) auto

lemma https_of_append: "https_of (xs @ ys) = https_of xs @ https_of ys"
  by (induction xs rule: https_of.induct) auto

lemma sleeps_of_append: "sleeps_of (xs @ ys) = sleeps_of xs @ sleeps_of ys"
  by (induction xs rule: sleeps_of.induct) auto

lemma https_of_wire: "https_of (wire xs) = https_of xs"
  by (induction xs rule: wire.induct) auto

lemma sleeps_of_wire: "sleeps_of (wire xs) = sleeps_of xs"
  by (induction xs rule: wire.induct) auto

lemma retries_0: "retries w rq a b d 0 = []"
  by (simp add: retries_def)

lemma retries_Suc:
  "retries w rq a b d (Suc n) =
     Http rq # Sleep (randint_value w a b d) # retries w rq a b (Suc d) n"
proof -
  have "map (\<lambda>i. [Http rq, Sleep (randint_value w a b (d + i))]) [0..<Suc n] =
        [Http rq, Sleep (randint_value w a b d)] #
        map (\<lambda>i. [Http rq, Sleep (randint_value w a b (Suc d + i))]) [0..<n]"
    by (simp add: upt_conv_Cons map_Suc_upt [symmetric] del: upt_Suc)
  then show ?thesis
    by (simp add: retries_def)
qed

lemma https_of_retries: "https_of (retries w rq a b d n) = replicate n rq"
  by (induction n arbitrary: d) (simp_all add: retries_0 retries_Suc)

lemma sleeps_of_retries:
  "sleeps_of (retries w rq a b d n) = map (\<lambda>i. randint_value w a b (d + i)) [0..<n]"
proof (induction n arbitrary: d)
  case 0
  then show ?case by (simp add: retries_0)
next
  case (Suc n)
  have "map (\<lambda>i. randint_value w a b (d + i)) [0..<Suc n] =
        randint_value w a b d # map (\<lambda>i. randint_value w a b (Suc d + i)) [0..<n]"
    by (simp add: upt_conv_Cons map_Suc_upt [symmetric] del: upt_Suc)
  with Suc show ?case
    by (simp add: retries_Suc)
qed

lemma randint_value_range:
  assumes "a \<le> b"
  shows "a \<le> randint_value w a b k \<and> randint_value w a b k \<le> b"
proof -
  from assms have "0 < b - a + 1"
    by simp
  then have "0 \<le> int (entropy w k) mod (b - a + 1)"
    and "int (entropy w k) mod (b - a + 1) < b - a + 1"
    by (rule pos_mod_sign, rule pos_mod_bound)
  then show ?thesis
    unfolding randint_value_def by linarith
qed

lemma always_fails_0: "always_fails w rq h 0"
  by (simp add: always_fails_def)

lemma always_fails_Suc:
  "always_fails w rq h (Suc n) \<longleftrightarrow>
     transport_fails (http w h rq) \<and> always_fails w rq (Suc h) n"
proof -
  have "[0..<Suc n] = 0 # map Suc [0..<n]"
    by (simp add: upt_conv_Cons map_Suc_upt del: upt_Suc)
  then show ?thesis
    by (simp add: always_fails_def list.pred_map comp_def)
qed

lemma wait_random_effect:
  "wait_random w a b msg s =
     s\<lparr>draws := Suc (draws s),
       trace := trace s @ [Log INFO (msg (randint_value w a b (draws s))),
                           Sleep (randint_value w a b (draws s))]\<rparr>"
  by (simp add: wait_random_def randint_def sleep_def logger_def)

subsection \<open>PushPlus: one pass of the loop\<close>

lemma pushplus_try_fails:
  assumes "transport_fails (http w (http_calls s) (pushplus_request nf content token))"
  shows "\<exists>e. is_RequestException e \<and>
           pushplus_try w nf content token s =
             (Inl e, s\<lparr>http_calls := Suc (http_calls s),
                       trace := trace s @ [Http (pushplus_request nf content token)]\<rparr>)"
  using assms
  by (auto simp: pushplus_try_def requests_send_def transport_fails_def attempt_raises_def
      split: sum.splits option.splits)

lemma pushplus_try_succeeds:
  assumes "transport_succeeds (http w (http_calls s) (pushplus_request nf content token))"
  shows "\<exists>r. http w (http_calls s) (pushplus_request nf content token) = Inr r \<and>
           pushplus_try w nf content token s =
             (Inr (), s\<lparr>http_calls := Suc (http_calls s),
                        trace := trace s @ [Http (pushplus_request nf content token),
                                            Log INFO (PushPlusResponse (resp_text r))]\<rparr>)"
  using assms
  by (auto simp: pushplus_try_def requests_send_def transport_succeeds_def attempt_raises_def
      logger_def split: sum.splits option.splits)

lemma pushplus_loop_fail_step:
  assumes "transport_fails (http w (http_calls s) (pushplus_request nf content token))"
      and "attempt < attempts"
  shows "\<exists>s1. push_pushplus_loop w nf content token attempts attempt s =
                push_pushplus_loop w nf content token attempts (Suc attempt) s1 \<and>
              http_calls s1 = Suc (http_calls s) \<and>
              clock_reads s1 = clock_reads s \<and>
              draws s1 = (if attempt < attempts - 1 then Suc (draws s) else draws s) \<and>
              wire (trace s1) =
                wire (trace s) @ Http (pushplus_request nf content token) #
                  (if attempt < attempts - 1 then [Sleep (randint_value w 180 360 (draws s))]
                   else [])"
proof -
  from pushplus_try_fails [OF assms(1)] obtain e where e: "is_RequestException e"
    and t: "pushplus_try w nf content token s =
             (Inl e, s\<lparr>http_calls := Suc (http_calls s),
                       trace := trace s @ [Http (pushplus_request nf content token)]\<rparr>)"
    by blast
  let ?s1 = "if attempt < attempts - 1
             then wait_random w 180 360 RetryIn (logger ERROR (PushPlusFailed e)
                    (s\<lparr>http_calls := Suc (http_calls s),
                       trace := trace s @ [Http (pushplus_request nf content token)]\<rparr>))
             else logger ERROR (PushPlusFailed e)
                    (s\<lparr>http_calls := Suc (http_calls s),
                       trace := trace s @ [Http (pushplus_request nf content token)]\<rparr>)"
  have "push_pushplus_loop w nf content token attempts attempt s =
        push_pushplus_loop w nf content token attempts (Suc attempt) ?s1"
    by (subst push_pushplus_loop.simps) (simp add: assms(2) t e)
  then show ?thesis
    by (intro exI [of _ ?s1]) (simp add: wait_random_effect logger_def wire_append)
qed

lemma pushplus_loop_success_step:
  assumes "transport_succeeds (http w (http_calls s) (pushplus_request nf content token))"
      and "attempt < attempts"
  shows "\<exists>s1. push_pushplus_loop w nf content token attempts attempt s = (Inr PyNone, s1) \<and>
              http_calls s1 = Suc (http_calls s) \<and> draws s1 = draws s \<and>
              clock_reads s1 = clock_reads s \<and>
              wire (trace s1) = wire (trace s) @ [Http (pushplus_request nf content token)]"
proof -
  from pushplus_try_succeeds [OF assms(1)] obtain r where
    "http w (http_calls s) (pushplus_request nf content token) = Inr r" and
    t: "pushplus_try w nf content token s =
          (Inr (), s\<lparr>http_calls := Suc (http_calls s),
                     trace := trace s @ [Http (pushplus_request nf content token),
                                         Log INFO (PushPlusResponse (resp_text r))]\<rparr>)"
    by blast
  show ?thesis
    by (subst push_pushplus_loop.simps) (simp add: assms(2) t wire_append)
qed

lemma pushplus_loop_retries:
  assumes "fails_then_succeeds w (pushplus_request nf content token) (http_calls s) n"
      and "attempt + n < attempts"
  shows "\<exists>s1. push_pushplus_loop w nf content token attempts attempt s = (Inr PyNone, s1) \<and>
              http_calls s1 = http_calls s + n + 1 \<and> draws s1 = draws s + n \<and>
              clock_reads s1 = clock_reads s \<and>
              wire (trace s1) =
                wire (trace s) @ retries w (pushplus_request nf content token) 180 360 (draws s) n
                  @ [Http (pushplus_request nf content token)]"
  using assms
proof (induction n arbitrary: attempt s)
  case 0
  then have "transport_succeeds (http w (http_calls s) (pushplus_request nf content token))"
    and "attempt < attempts"
    by (simp_all add: fails_then_succeeds_def)
  from pushplus_loop_success_step [OF this] show ?case
    by (auto simp: retries_0)
next
  case (Suc n)
  let ?rq = "pushplus_request nf content token"
  from Suc.prems have f: "transport_fails (http w (http_calls s) ?rq)"
    and rest: "fails_then_succeeds w ?rq (Suc (http_calls s)) n"
    and lt: "attempt < attempts" "attempt < attempts - 1" "Suc attempt + n < attempts"
    by (simp_all add: fails_then_succeeds_def always_fails_Suc)
  from pushplus_loop_fail_step [OF f lt(1)] obtain s1 where
    s1: "push_pushplus_loop w nf content token attempts attempt s =
           push_pushplus_loop w nf content token attempts (Suc attempt) s1"
      "http_calls s1 = Suc (http_calls s)" "draws s1 = Suc (draws s)"
      "clock_reads s1 = clock_reads s"
      "wire (trace s1) = wire (trace s) @ [Http ?rq, Sleep (randint_value w 180 360 (draws s))]"
    using lt(2) by auto
  from rest s1(2) have "fails_then_succeeds w ?rq (http_calls s1) n"
    by simp
  from Suc.IH [OF this lt(3)] obtain s2 where
    s2: "push_pushplus_loop w nf content token attempts (Suc attempt) s1 = (Inr PyNone, s2)"
      "http_calls s2 = http_calls s1 + n + 1" "draws s2 = draws s1 + n"
      "clock_reads s2 = clock_reads s1"
      "wire (trace s2) = wire (trace s1) @ retries w ?rq 180 360 (draws s1) n @ [Http ?rq]"
    by blast
  show ?case
    using s1 s2 by (simp add: retries_Suc)
qed

lemma pushplus_loop_exhausted:
  assumes "always_fails w (pushplus_request nf content token) (http_calls s) (Suc n)"
      and "attempt + Suc n = attempts"
  shows "\<exists>s1. push_pushplus_loop w nf content token attempts attempt s = (Inr PyNone, s1) \<and>
              http_calls s1 = http_calls s + Suc n \<and> draws s1 = draws s + n \<and>
              clock_reads s1 = clock_reads s \<and>
              wire (trace s1) =
                wire (trace s) @ retries w (pushplus_request nf content token) 180 360 (draws s) n
                  @ [Http (pushplus_request nf content token)]"
  using assms
proof (induction n arbitrary: attempt s)
  case 0
  let ?rq = "pushplus_request nf content token"
  from 0 have f: "transport_fails (http w (http_calls s) ?rq)"
    and lt: "attempt < attempts" "\<not> attempt < attempts - 1" "\<not> Suc attempt < attempts"
    by (auto simp: always_fails_Suc)
  from pushplus_loop_fail_step [OF f lt(1)] obtain s1 where
    s1: "push_pushplus_loop w nf content token attempts attempt s =
           push_pushplus_loop w nf content token attempts (Suc attempt) s1"
      "http_calls s1 = Suc (http_calls s)" "draws s1 = draws s"
      "clock_reads s1 = clock_reads s"
      "wire (trace s1) = wire (trace s) @ [Http ?rq]"
    using lt(2) by auto
  have "push_pushplus_loop w nf content token attempts (Suc attempt) s1 = (Inr PyNone, s1)"
    by (subst push_pushplus_loop.simps) (simp add: lt(3))
  with s1 show ?case
    by (simp add: retries_0)
next
  case (Suc n)
  let ?rq = "pushplus_request nf content token"
  from Suc.prems have f: "transport_fails (http w (http_calls s) ?rq)"
    and rest: "always_fails w ?rq (Suc (http_calls s)) (Suc n)"
    and lt: "attempt < attempts" "attempt < attempts - 1" "Suc attempt + Suc n = attempts"
    by (auto simp: always_fails_Suc [of w ?rq "http_calls s" "Suc n"])
  from pushplus_loop_fail_step [OF f lt(1)] obtain s1 where
    s1: "push_pushplus_loop w nf content token attempts attempt s =
           push_pushplus_loop w nf content token attempts (Suc attempt) s1"
      "http_calls s1 = Suc (http_calls s)" "draws s1 = Suc (draws s)"
      "clock_reads s1 = clock_reads s"
      "wire (trace s1) = wire (trace s) @ [Http ?rq, Sleep (randint_value w 180 360 (draws s))]"
    using lt(2) by auto
  from rest s1(2) have "always_fails w ?rq (http_calls s1) (Suc n)"
    by simp
  from Suc.IH [OF this lt(3)] obtain s2 where
    s2: "push_pushplus_loop w nf content token attempts (Suc attempt) s1 = (Inr PyNone, s2)"
      "http_calls s2 = http_calls s1 + Suc n" "draws s2 = draws s1 + n"
      "clock_reads s2 = clock_reads s1"
      "wire (trace s2) = wire (trace s1) @ retries w ?rq 180 360 (draws s1) n @ [Http ?rq]"
    by blast
  show ?case
    using s1 s2 by (simp add: retries_Suc)
qed

subsection \<open>WxPusher: one pass of the loop\<close>

lemma wxpusher_try_fails:
  assumes "transport_fails (http w (http_calls s) (wxpusher_request nf content spt))"
  shows "\<exists>e. is_RequestException e \<and>
           wxpusher_try w nf content spt s =
             (Inl e, s\<lparr>http_calls := Suc (http_calls s),
                       trace := trace s @ [Http (wxpusher_request nf content spt)]\<rparr>)"
  using assms
  by (auto simp: wxpusher_try_def requests_send_def transport_fails_def attempt_raises_def
      split: sum.splits option.splits)

lemma wxpusher_try_succeeds:
  assumes "transport_succeeds (http w (http_calls s) (wxpusher_request nf content spt))"
  shows "\<exists>r. http w (http_calls s) (wxpusher_request nf content spt) = Inr r \<and>
           wxpusher_try w nf content spt s =
             (Inr (), s\<lparr>http_calls := Suc (http_calls s),
                        trace := trace s @ [Http (wxpusher_request nf content spt),
                                            Log INFO (WxPusherResponse (resp_text r))]\<rparr>)"
  using assms
  by (auto simp: wxpusher_try_def requests_send_def transport_succeeds_def attempt_raises_def
      logger_def split: sum.splits option.splits)

lemma wxpusher_loop_fail_step:
  assumes "transport_fails (http w (http_calls s) (wxpusher_request nf content spt))"
      and "attempt < attempts"
  shows "\<exists>s1. push_wxpusher_loop w nf content spt attempts attempt s =
                push_wxpusher_loop w nf content spt attempts (Suc attempt) s1 \<and>
              http_calls s1 = Suc (http_calls s) \<and>
              clock_reads s1 = clock_reads s \<and>
              draws s1 = (if attempt < attempts - 1 then Suc (draws s) else draws s) \<and>
              wire (trace s1) =
                wire (trace s) @ Http (wxpusher_request nf content spt) #
                  (if attempt < attempts - 1 then [Sleep (randint_value w 180 360 (draws s))]
                   else [])"
proof -
  from wxpusher_try_fails [OF assms(1)] obtain e where e: "is_RequestException e"
    and t: "wxpusher_try w nf content spt s =
             (Inl e, s\<lparr>http_calls := Suc (http_calls s),
                       trace := trace s @ [Http (wxpusher_request nf content spt)]\<rparr>)"
    by blast
  let ?s1 = "if attempt < attempts - 1
             then wait_random w 180 360 RetryIn (logger ERROR (WxPusherFailed e)
                    (s\<lparr>http_calls := Suc (http_calls s),
                       trace := trace s @ [Http (wxpusher_request nf content spt)]\<rparr>))
             else logger ERROR (WxPusherFailed e)
                    (s\<lparr>http_calls := Suc (http_calls s),
                       trace := trace s @ [Http (wxpusher_request nf content spt)]\<rparr>)"
  have "push_wxpusher_loop w nf content spt attempts attempt s =
        push_wxpusher_loop w nf content spt attempts (Suc attempt) ?s1"
    by (subst push_wxpusher_loop.simps) (simp add: assms(2) t e)
  then show ?thesis
    by (intro exI [of _ ?s1]) (simp add: wait_random_effect logger_def wire_append)
qed

lemma wxpusher_loop_success_step:
  assumes "transport_succeeds (http w (http_calls s) (wxpusher_request nf content spt))"
      and "attempt < attempts"
  shows "\<exists>s1. push_wxpusher_loop w nf content spt attempts attempt s = (Inr PyNone, s1) \<and>
              http_calls s1 = Suc (http_calls s) \<and> draws s1 = draws s \<and>
              clock_reads s1 = clock_reads s \<and>
              wire (trace s1) = wire (trace s) @ [Http (wxpusher_request nf content spt)]"
proof -
  from wxpusher_try_succeeds [OF assms(1)] obtain r where
    "http w (http_calls s) (wxpusher_request nf content spt) = Inr r" and
    t: "wxpusher_try w nf content spt s =
          (Inr (), s\<lparr>http_calls := Suc (http_calls s),
                     trace := trace s @ [Http (wxpusher_request nf content spt),
                                         Log INFO (WxPusherResponse (resp_text r))]\<rparr>)"
    by blast
  show ?thesis
    by (subst push_wxpusher_loop.simps) (simp add: assms(2) t wire_append)
qed

lemma wxpusher_loop_retries:
  assumes "fails_then_succeeds w (wxpusher_request nf content spt) (http_calls s) n"
      and "attempt + n < attempts"
  shows "\<exists>s1. push_wxpusher_loop w nf content spt attempts attempt s = (Inr PyNone, s1) \<and>
              http_calls s1 = http_calls s + n + 1 \<and> draws s1 = draws s + n \<and>
              clock_reads s1 = clock_reads s \<and>
              wire (trace s1) =
                wire (trace s) @ retries w (wxpusher_request nf content spt) 180 360 (draws s) n
                  @ [Http (wxpusher_request nf content spt)]"
  using assms
proof (induction n arbitrary: attempt s)
  case 0
  then have "transport_succeeds (http w (http_calls s) (wxpusher_request nf content spt))"
    and "attempt < attempts"
    by (simp_all add: fails_then_succeeds_def)
  from wxpusher_loop_success_step [OF this] show ?case
    by (auto simp: retries_0)
next
  case (Suc n)
  let ?rq = "wxpusher_request nf content spt"
  from Suc.prems have f: "transport_fails (http w (http_calls s) ?rq)"
    and rest: "fails_then_succeeds w ?rq (Suc (http_calls s)) n"
    and lt: "attempt < attempts" "attempt < attempts - 1" "Suc attempt + n < attempts"
    by (simp_all add: fails_then_succeeds_def always_fails_Suc)
  from wxpusher_loop_fail_step [OF f lt(1)] obtain s1 where
    s1: "push_wxpusher_loop w nf content spt attempts attempt s =
           push_wxpusher_loop w nf content spt attempts (Suc attempt) s1"
      "http_calls s1 = Suc (http_calls s)" "draws s1 = Suc (draws s)"
      "clock_reads s1 = clock_reads s"
      "wire (trace s1) = wire (trace s) @ [Http ?rq, Sleep (randint_value w 180 360 (draws s))]"
    using lt(2) by auto
  from rest s1(2) have "fails_then_succeeds w ?rq (http_calls s1) n"
    by simp
  from Suc.IH [OF this lt(3)] obtain s2 where
    s2: "push_wxpusher_loop w nf content spt attempts (Suc attempt) s1 = (Inr PyNone, s2)"
      "http_calls s2 = http_calls s1 + n + 1" "draws s2 = draws s1 + n"
      "clock_reads s2 = clock_reads s1"
      "wire (trace s2) = wire (trace s1) @ retries w ?rq 180 360 (draws s1) n @ [Http ?rq]"
    by blast
  show ?case
    using s1 s2 by (simp add: retries_Suc)
qed

lemma wxpusher_loop_exhausted:
  assumes "always_fails w (wxpusher_request nf content spt) (http_calls s) (Suc n)"
      and "attempt + Suc n = attempts"
  shows "\<exists>s1. push_wxpusher_loop w nf content spt attempts attempt s = (Inr PyNone, s1) \<and>
              http_calls s1 = http_calls s + Suc n \<and> draws s1 = draws s + n \<and>
              clock_reads s1 = clock_reads s \<and>
              wire (trace s1) =
                wire (trace s) @ retries w (wxpusher_request nf content spt) 180 360 (draws s) n
                  @ [Http (wxpusher_request nf content spt)]"
  using assms
proof (induction n arbitrary: attempt s)
  case 0
  let ?rq = "wxpusher_request nf content spt"
  from 0 have f: "transport_fails (http w (http_calls s) ?rq)"
    and lt: "attempt < attempts" "\<not> attempt < attempts - 1" "\<not> Suc attempt < attempts"
    by (auto simp: always_fails_Suc)
  from wxpusher_loop_fail_step [OF f lt(1)] obtain s1 where
    s1: "push_wxpusher_loop w nf content spt attempts attempt s =
           push_wxpusher_loop w nf content spt attempts (Suc attempt) s1"
      "http_calls s1 = Suc (http_calls s)" "draws s1 = draws s"
      "clock_reads s1 = clock_reads s"
      "wire (trace s1) = wire (trace s) @ [Http ?rq]"
    using lt(2) by auto
  have "push_wxpusher_loop w nf content spt attempts (Suc attempt) s1 = (Inr PyNone, s1)"
    by (subst push_wxpusher_loop.simps) (simp add: lt(3))
  with s1 show ?case
    by (simp add: retries_0)
next
  case (Suc n)
  let ?rq = "wxpusher_request nf content spt"
  from Suc.prems have f: "transport_fails (http w (http_calls s) ?rq)"
    and rest: "always_fails w ?rq (Suc (http_calls s)) (Suc n)"
    and lt: "attempt < attempts" "attempt < attempts - 1" "Suc attempt + Suc n = attempts"
    by (auto simp: always_fails_Suc [of w ?rq "http_calls s" "Suc n"])
  from wxpusher_loop_fail_step [OF f lt(1)] obtain s1 where
    s1: "push_wxpusher_loop w nf content spt attempts attempt s =
           push_wxpusher_loop w nf content spt attempts (Suc attempt) s1"
      "http_calls s1 = Suc (http_calls s)" "draws s1 = Suc (draws s)"
      "clock_reads s1 = clock_reads s"
      "wire (trace s1) = wire (trace s) @ [Http ?rq, Sleep (randint_value w 180 360 (draws s))]"
    using lt(2) by auto
  from rest s1(2) have "always_fails w ?rq (http_calls s1) (Suc n)"
    by simp
  from Suc.IH [OF this lt(3)] obtain s2 where
    s2: "push_wxpusher_loop w nf content spt attempts (Suc attempt) s1 = (Inr PyNone, s2)"
      "http_calls s2 = http_calls s1 + Suc n" "draws s2 = draws s1 + n"
      "clock_reads s2 = clock_reads s1"
      "wire (trace s2) = wire (trace s1) @ retries w ?rq 180 360 (draws s1) n @ [Http ?rq]"
    by blast
  show ?case
    using s1 s2 by (simp add: retries_Suc)
qed

section \<open>The dispatcher\<close>

text \<open>
  C1. For every method string other than "pushplus", "telegram", "wxpusher" and
  "dingtalk", \<open>push\<close> raises \<open>ValueError\<close> and leaves the state as it found it: no HTTP
  call, no sleep, no log line, no retry. For each of the four known strings it is the
  matching sender, called with the content and that channel's credentials.
\<close>

theorem push_dispatch:
  "(method \<notin> set [''pushplus'', ''telegram'', ''wxpusher'', ''dingtalk''] \<longrightarrow>
      push w cfg content method s = (Inl ValueError, s)) \<and>
   push w cfg content ''pushplus'' s =
     push_pushplus w (PushNotification cfg) content (PUSHPLUS_TOKEN cfg) s \<and>
   push w cfg content ''telegram'' s =
     push_telegram w (PushNotification cfg) content (TELEGRAM_BOT_TOKEN cfg)
       (TELEGRAM_CHAT_ID cfg) s \<and>
   push w cfg content ''wxpusher'' s =
     push_wxpusher w (PushNotification cfg) content (WXPUSHER_SPT cfg) s \<and>
   push w cfg content ''dingtalk'' s = push_dingtalk w (PushNotification cfg) cfg content s"
  by (simp add: push_def)

theorem push_dispatch_witness:
  "''email'' \<notin> set [''pushplus'', ''telegram'', ''wxpusher'', ''dingtalk''] \<and>
   push world_flaky config0 ''hello'' ''email'' state0 = (Inl ValueError, state0) \<and>
   https_of (trace (snd (push world_flaky config0 ''hello'' ''email'' state0))) = []"
  using push_dispatch [of "''email''" world_flaky config0 "''hello''" state0]
  by (simp add: state0_def)

section \<open>PushPlus and WxPusher: the retry loop\<close>

text \<open>
  C4. For the PushPlus and the WxPusher sender and every \<open>N < 5\<close>: when the transport fails
  on the first \<open>N\<close> attempts and succeeds on the next, the sender returns (\<open>None\<close>) after
  exactly \<open>N + 1\<close> HTTP calls; on the wire, each of the \<open>N\<close> failed calls is followed by
  its sleep, and the successful call is the last thing that happens: no call and no sleep
  comes after it.
\<close>

theorem retry_until_success:
  assumes "N < 5"
  shows
    "(fails_then_succeeds w (pushplus_request nf content token) (http_calls s) N \<longrightarrow>
        fst (push_pushplus w nf content token s) = Inr PyNone \<and>
        wire (trace (snd (push_pushplus w nf content token s))) =
          wire (trace s) @ retries w (pushplus_request nf content token) 180 360 (draws s) N
            @ [Http (pushplus_request nf content token)] \<and>
        length (https_of (trace (snd (push_pushplus w nf content token s)))) =
          length (https_of (trace s)) + N + 1 \<and>
        length (sleeps_of (trace (snd (push_pushplus w nf content token s)))) =
          length (sleeps_of (trace s)) + N) \<and>
     (fails_then_succeeds w (wxpusher_request nf content spt) (http_calls s) N \<longrightarrow>
        fst (push_wxpusher w nf content spt s) = Inr PyNone \<and>
        wire (trace (snd (push_wxpusher w nf content spt s))) =
          wire (trace s) @ retries w (wxpusher_request nf content spt) 180 360 (draws s) N
            @ [Http (wxpusher_request nf content spt)] \<and>
        length (https_of (trace (snd (push_wxpusher w nf content spt s)))) =
          length (https_of (trace s)) + N + 1 \<and>
        length (sleeps_of (trace (snd (push_wxpusher w nf content spt s)))) =
          length (sleeps_of (trace s)) + N)"
proof (intro conjI impI)
  let ?rq = "pushplus_request nf content token"
  assume "fails_then_succeeds w ?rq (http_calls s) N"
  from pushplus_loop_retries [OF this, of 0 5] assms obtain s1 where
    s1: "push_pushplus w nf content token s = (Inr PyNone, s1)"
      "wire (trace s1) = wire (trace s) @ retries w ?rq 180 360 (draws s) N @ [Http ?rq]"
    by (auto simp: push_pushplus_def)
  from s1(2) have "https_of (wire (trace s1)) = https_of (wire (trace s)) @ replicate N ?rq @ [?rq]"
    and "sleeps_of (wire (trace s1)) =
         sleeps_of (wire (trace s)) @ map (\<lambda>i. randint_value w 180 360 (draws s + i)) [0..<N]"
    by (simp_all add: https_of_append sleeps_of_append https_of_retries sleeps_of_retries)
  then have "length (https_of (trace s1)) = length (https_of (trace s)) + N + 1"
    and "length (sleeps_of (trace s1)) = length (sleeps_of (trace s)) + N"
    by (simp_all add: https_of_wire sleeps_of_wire)
  with s1 show "fst (push_pushplus w nf content token s) = Inr PyNone"
    and "wire (trace (snd (push_pushplus w nf content token s))) =
          wire (trace s) @ retries w ?rq 180 360 (draws s) N @ [Http ?rq]"
    and "length (https_of (trace (snd (push_pushplus w nf content token s)))) =
          length (https_of (trace s)) + N + 1"
    and "length (sleeps_of (trace (snd (push_pushplus w nf content token s)))) =
          length (sleeps_of (trace s)) + N"
    by simp_all
next
  let ?rq = "wxpusher_request nf content spt"
  assume "fails_then_succeeds w ?rq (http_calls s) N"
  from wxpusher_loop_retries [OF this, of 0 5] assms obtain s1 where
    s1: "push_wxpusher w nf content spt s = (Inr PyNone, s1)"
      "wire (trace s1) = wire (trace s) @ retries w ?rq 180 360 (draws s) N @ [Http ?rq]"
    by (auto simp: push_wxpusher_def)
  from s1(2) have "https_of (wire (trace s1)) = https_of (wire (trace s)) @ replicate N ?rq @ [?rq]"
    and "sleeps_of (wire (trace s1)) =
         sleeps_of (wire (trace s)) @ map (\<lambda>i. randint_value w 180 360 (draws s + i)) [0..<N]"
    by (simp_all add: https_of_append sleeps_of_append https_of_retries sleeps_of_retries)
  then have "length (https_of (trace s1)) = length (https_of (trace s)) + N + 1"
    and "length (sleeps_of (trace s1)) = length (sleeps_of (trace s)) + N"
    by (simp_all add: https_of_wire sleeps_of_wire)
  with s1 show "fst (push_wxpusher w nf content spt s) = Inr PyNone"
    and "wire (trace (snd (push_wxpusher w nf content spt s))) =
          wire (trace s) @ retries w ?rq 180 360 (draws s) N @ [Http ?rq]"
    and "length (https_of (trace (snd (push_wxpusher w nf content spt s)))) =
          length (https_of (trace s)) + N + 1"
    and "length (sleeps_of (trace (snd (push_wxpusher w nf content spt s)))) =
          length (sleeps_of (trace s)) + N"
    by simp_all
qed

lemma world_flaky_fails_then_succeeds: "fails_then_succeeds world_flaky rq 0 2"
  by (simp add: fails_then_succeeds_def always_fails_def world_flaky_def transport_fails_def
      transport_succeeds_def attempt_raises_def raise_for_status_def response_ok_def
      upt_conv_Cons)

theorem retry_until_success_witness:
  "(2::nat) < 5 \<and>
   fails_then_succeeds world_flaky
     (pushplus_request (PushNotification config0) ''hello'' (Some ''tok'')) (http_calls state0) 2 \<and>
   fails_then_succeeds world_flaky
     (wxpusher_request (PushNotification config0) ''hello'' (Some ''spt'')) (http_calls state0) 2 \<and>
   fst (push_pushplus world_flaky (PushNotification config0) ''hello'' (Some ''tok'') state0) =
     Inr PyNone \<and>
   length (https_of (trace (snd (push_pushplus world_flaky (PushNotification config0) ''hello''
     (Some ''tok'') state0)))) = 3 \<and>
   length (sleeps_of (trace (snd (push_pushplus world_flaky (PushNotification config0) ''hello''
     (Some ''tok'') state0)))) = 2 \<and>
   fst (push_wxpusher world_flaky (PushNotification config0) ''hello'' (Some ''spt'') state0) =
     Inr PyNone \<and>
   length (https_of (trace (snd (push_wxpusher world_flaky (PushNotification config0) ''hello''
     (Some ''spt'') state0)))) = 3"
  using retry_until_success [of 2 world_flaky "PushNotification config0" "''hello''"
      "Some ''tok''" state0 "Some ''spt''"]
    world_flaky_fails_then_succeeds
  by (simp add: state0_def)

text \<open>
  C5 (as amended: the window is closed at 360). For the PushPlus and the WxPusher sender:
  when the transport fails on every attempt, the sender makes exactly five HTTP calls;
  each of the first four is followed by a sleep that \<open>randint(180, 360)\<close> drew, of at
  least 180 and at most 360 seconds; nothing follows the fifth call but its log line; and
  the sender returns (\<open>None\<close>) without raising.
\<close>

theorem retry_exhausted:
  "(always_fails w (pushplus_request nf content token) (http_calls s) 5 \<longrightarrow>
      fst (push_pushplus w nf content token s) = Inr PyNone \<and>
      wire (trace (snd (push_pushplus w nf content token s))) =
        wire (trace s) @
          [Http (pushplus_request nf content token), Sleep (randint_value w 180 360 (draws s)),
           Http (pushplus_request nf content token), Sleep (randint_value w 180 360 (draws s + 1)),
           Http (pushplus_request nf content token), Sleep (randint_value w 180 360 (draws s + 2)),
           Http (pushplus_request nf content token), Sleep (randint_value w 180 360 (draws s + 3)),
           Http (pushplus_request nf content token)]) \<and>
   (always_fails w (wxpusher_request nf content spt) (http_calls s) 5 \<longrightarrow>
      fst (push_wxpusher w nf content spt s) = Inr PyNone \<and>
      wire (trace (snd (push_wxpusher w nf content spt s))) =
        wire (trace s) @
          [Http (wxpusher_request nf content spt), Sleep (randint_value w 180 360 (draws s)),
           Http (wxpusher_request nf content spt), Sleep (randint_value w 180 360 (draws s + 1)),
           Http (wxpusher_request nf content spt), Sleep (randint_value w 180 360 (draws s + 2)),
           Http (wxpusher_request nf content spt), Sleep (randint_value w 180 360 (draws s + 3)),
           Http (wxpusher_request nf content spt)]) \<and>
   180 \<le> randint_value w 180 360 k \<and> randint_value w 180 360 k \<le> 360"
proof (intro conjI impI)
  let ?rq = "pushplus_request nf content token"
  assume "always_fails w ?rq (http_calls s) 5"
  then have "always_fails w ?rq (http_calls s) (Suc 4)"
    by (simp add: eval_nat_numeral)
  from pushplus_loop_exhausted [OF this, of 0 5] obtain s1 where
    s1: "push_pushplus w nf content token s = (Inr PyNone, s1)"
      "wire (trace s1) = wire (trace s) @ retries w ?rq 180 360 (draws s) 4 @ [Http ?rq]"
    by (auto simp: push_pushplus_def)
  have "retries w ?rq 180 360 (draws s) 4 =
        [Http ?rq, Sleep (randint_value w 180 360 (draws s)),
         Http ?rq, Sleep (randint_value w 180 360 (draws s + 1)),
         Http ?rq, Sleep (randint_value w 180 360 (draws s + 2)),
         Http ?rq, Sleep (randint_value w 180 360 (draws s + 3))]"
    by (simp add: eval_nat_numeral retries_Suc retries_0)
  with s1 show "fst (push_pushplus w nf content token s) = Inr PyNone"
    and "wire (trace (snd (push_pushplus w nf content token s))) =
        wire (trace s) @
          [Http ?rq, Sleep (randint_value w 180 360 (draws s)),
           Http ?rq, Sleep (randint_value w 180 360 (draws s + 1)),
           Http ?rq, Sleep (randint_value w 180 360 (draws s + 2)),
           Http ?rq, Sleep (randint_value w 180 360 (draws s + 3)),
           Http ?rq]"
    by simp_all
next
  let ?rq = "wxpusher_request nf content spt"
  assume "always_fails w ?rq (http_calls s) 5"
  then have "always_fails w ?rq (http_calls s) (Suc 4)"
    by (simp add: eval_nat_numeral)
  from wxpusher_loop_exhausted [OF this, of 0 5] obtain s1 where
    s1: "push_wxpusher w nf content spt s = (Inr PyNone, s1)"
      "wire (trace s1) = wire (trace s) @ retries w ?rq 180 360 (draws s) 4 @ [Http ?rq]"
    by (auto simp: push_wxpusher_def)
  have "retries w ?rq 180 360 (draws s) 4 =
        [Http ?rq, Sleep (randint_value w 180 360 (draws s)),
         Http ?rq, Sleep (randint_value w 180 360 (draws s + 1)),
         Http ?rq, Sleep (randint_value w 180 360 (draws s + 2)),
         Http ?rq, Sleep (randint_value w 180 360 (draws s + 3))]"
    by (simp add: eval_nat_numeral retries_Suc retries_0)
  with s1 show "fst (push_wxpusher w nf content spt s) = Inr PyNone"
    and "wire (trace (snd (push_wxpusher w nf content spt s))) =
        wire (trace s) @
          [Http ?rq, Sleep (randint_value w 180 360 (draws s)),
           Http ?rq, Sleep (randint_value w 180 360 (draws s + 1)),
           Http ?rq, Sleep (randint_value w 180 360 (draws s + 2)),
           Http ?rq, Sleep (randint_value w 180 360 (draws s + 3)),
           Http ?rq]"
    by simp_all
next
  show "180 \<le> randint_value w 180 360 k" and "randint_value w 180 360 k \<le> 360"
    using randint_value_range [of 180 360 w k] by simp_all
qed

lemma world_down_always_fails: "always_fails world_down rq 0 5"
  by (simp add: always_fails_def world_down_def transport_fails_def attempt_raises_def
      upt_conv_Cons)

theorem retry_exhausted_witness:
  "always_fails world_down
     (pushplus_request (PushNotification config0) ''hello'' (Some ''tok'')) (http_calls state0) 5 \<and>
   always_fails world_down
     (wxpusher_request (PushNotification config0) ''hello'' (Some ''spt'')) (http_calls state0) 5 \<and>
   fst (push_pushplus world_down (PushNotification config0) ''hello'' (Some ''tok'') state0) =
     Inr PyNone \<and>
   sleeps_of (wire (trace (snd (push_pushplus world_down (PushNotification config0) ''hello''
     (Some ''tok'') state0)))) = [360, 360, 360, 360] \<and>
   length (https_of (wire (trace (snd (push_pushplus world_down (PushNotification config0)
     ''hello'' (Some ''tok'') state0))))) = 5 \<and>
   fst (push_wxpusher world_down (PushNotification config0) ''hello'' (Some ''spt'') state0) =
     Inr PyNone \<and>
   length (https_of (wire (trace (snd (push_wxpusher world_down (PushNotification config0)
     ''hello'' (Some ''spt'') state0))))) = 5"
  using retry_exhausted [of world_down "PushNotification config0" "''hello''" "Some ''tok''"
      state0 "Some ''spt''" 0]
    world_down_always_fails
  by (simp add: state0_def randint_value_def world_down_def)

text \<open>
  The claim as the specification words it, with the window open at 360, fails: where no
  connection can be made and each draw comes out at the top of its range, every sleep is
  of 360 seconds.
\<close>

theorem sleep_window_counterexample:
  "always_fails world_down
     (pushplus_request (PushNotification config0) ''hello'' (Some ''tok'')) (http_calls state0) 5 \<and>
   sleeps_of (trace (snd (push_pushplus world_down (PushNotification config0) ''hello''
     (Some ''tok'') state0))) = [360, 360, 360, 360] \<and>
   \<not> list_all spec_sleep_window
     (sleeps_of (trace (snd (push_pushplus world_down (PushNotification config0) ''hello''
        (Some ''tok'') state0))))"
proof -
  have run: "sleeps_of (trace (snd (push_pushplus world_down (PushNotification config0) ''hello''
     (Some ''tok'') state0))) = [360, 360, 360, 360]"
    by (simp add: push_pushplus_def push_pushplus_loop.simps pushplus_try_def requests_send_def
        world_down_def state0_def wait_random_def randint_def randint_value_def sleep_def
        logger_def)
  show ?thesis
    unfolding run using world_down_always_fails
    by (simp add: state0_def spec_sleep_window_def)
qed

section \<open>PushPlus: which exceptions are caught\<close>

lemma pushplus_loop_propagates:
  "fst (push_pushplus_loop w nf content token attempts attempt s) = Inl e \<Longrightarrow>
     \<not> is_RequestException e"
proof (induction w nf content token attempts attempt s rule: push_pushplus_loop.induct)
  case (1 w nf content token attempts attempt s)
  show ?case
  proof (cases "attempt < attempts")
    case False
    with "1.prems" show ?thesis
      by (subst (asm) push_pushplus_loop.simps) simp
  next
    case True
    obtain res s1 where t: "pushplus_try w nf content token s = (res, s1)"
      by (cases "pushplus_try w nf content token s")
    show ?thesis
    proof (cases res)
      case (Inr u)
      with "1.prems" True t show ?thesis
        by (subst (asm) push_pushplus_loop.simps) simp
    next
      case (Inl e')
      show ?thesis
      proof (cases "is_RequestException e'")
        case False
        with "1.prems" True t Inl show ?thesis
          by (subst (asm) push_pushplus_loop.simps) simp
      next
        case req: True
        from "1.prems" True t Inl req
        have "fst (push_pushplus_loop w nf content token attempts (Suc attempt)
                (if attempt < attempts - 1
                 then wait_random w 180 360 RetryIn (logger ERROR (PushPlusFailed e') s1)
                 else logger ERROR (PushPlusFailed e') s1)) = Inl e"
          by (subst (asm) push_pushplus_loop.simps) simp
        with "1.IH" [OF True t [symmetric] Inl req] show ?thesis
          by simp
      qed
    qed
  qed
qed

text \<open>
  C9 (as amended: the handler names \<open>RequestException\<close>). In the PushPlus sender, every
  \<open>RequestException\<close> raised during an HTTP attempt, by the call or by
  \<open>raise_for_status\<close>, is caught: it is logged, the sender sleeps when attempts remain,
  and the loop goes on to the next attempt; no \<open>RequestException\<close> ever reaches the caller.
  An exception of any other class is not caught: it leaves the sender at once.
\<close>

theorem pushplus_catches_request_exceptions:
  "(fst (push_pushplus w nf content token s) = Inl e \<longrightarrow> \<not> is_RequestException e) \<and>
   (attempt < attempts \<and>
    attempt_raises (http w (http_calls s) (pushplus_request nf content token)) = Some e \<and>
    is_RequestException e \<longrightarrow>
      push_pushplus_loop w nf content token attempts attempt s =
        push_pushplus_loop w nf content token attempts (Suc attempt)
          (if attempt < attempts - 1
           then wait_random w 180 360 RetryIn
                  (logger ERROR (PushPlusFailed e)
                     (snd (requests_send w (pushplus_request nf content token) s)))
           else logger ERROR (PushPlusFailed e)
                  (snd (requests_send w (pushplus_request nf content token) s)))) \<and>
   (attempt < attempts \<and>
    attempt_raises (http w (http_calls s) (pushplus_request nf content token)) = Some e \<and>
    \<not> is_RequestException e \<longrightarrow>
      push_pushplus_loop w nf content token attempts attempt s =
        (Inl e, snd (requests_send w (pushplus_request nf content token) s)))"
proof (intro conjI impI)
  assume "fst (push_pushplus w nf content token s) = Inl e"
  then show "\<not> is_RequestException e"
    unfolding push_pushplus_def by (rule pushplus_loop_propagates)
next
  let ?rq = "pushplus_request nf content token"
  assume a: "attempt < attempts \<and> attempt_raises (http w (http_calls s) ?rq) = Some e \<and>
    is_RequestException e"
  then have "pushplus_try w nf content token s = (Inl e, snd (requests_send w ?rq s))"
    by (auto simp: pushplus_try_def requests_send_def attempt_raises_def split: sum.splits)
  with a show "push_pushplus_loop w nf content token attempts attempt s =
        push_pushplus_loop w nf content token attempts (Suc attempt)
          (if attempt < attempts - 1
           then wait_random w 180 360 RetryIn (logger ERROR (PushPlusFailed e)
                  (snd (requests_send w ?rq s)))
           else logger ERROR (PushPlusFailed e) (snd (requests_send w ?rq s)))"
    by (subst push_pushplus_loop.simps) simp
next
  let ?rq = "pushplus_request nf content token"
  assume a: "attempt < attempts \<and> attempt_raises (http w (http_calls s) ?rq) = Some e \<and>
    \<not> is_RequestException e"
  then have "pushplus_try w nf content token s = (Inl e, snd (requests_send w ?rq s))"
    by (auto simp: pushplus_try_def requests_send_def attempt_raises_def split: sum.splits)
  with a show "push_pushplus_loop w nf content token attempts attempt s =
        (Inl e, snd (requests_send w ?rq s))"
    by (subst push_pushplus_loop.simps) simp
qed

theorem pushplus_catches_request_exceptions_witness:
  "(0::nat) < 5 \<and>
   attempt_raises (http world_flaky (http_calls state0)
     (pushplus_request (PushNotification config0) ''hello'' (Some ''tok''))) = Some Timeout \<and>
   is_RequestException Timeout \<and>
   push_pushplus_loop world_flaky (PushNotification config0) ''hello'' (Some ''tok'') 5 0 state0 =
     push_pushplus_loop world_flaky (PushNotification config0) ''hello'' (Some ''tok'') 5 (Suc 0)
       (wait_random world_flaky 180 360 RetryIn
          (logger ERROR (PushPlusFailed Timeout)
             (snd (requests_send world_flaky
                (pushplus_request (PushNotification config0) ''hello'' (Some ''tok''))
                state0)))) \<and>
   attempt_raises (http world_value_error (http_calls state0)
     (pushplus_request (PushNotification config0) ''hello'' (Some ''tok''))) = Some ValueError \<and>
   \<not> is_RequestException ValueError \<and>
   push_pushplus_loop world_value_error (PushNotification config0) ''hello'' (Some ''tok'') 5 0
     state0 =
     (Inl ValueError,
      snd (requests_send world_value_error
        (pushplus_request (PushNotification config0) ''hello'' (Some ''tok'')) state0))"
  using pushplus_catches_request_exceptions [of world_flaky "PushNotification config0"
      "''hello''" "Some ''tok''" state0 Timeout 0 5]
    pushplus_catches_request_exceptions [of world_value_error "PushNotification config0"
      "''hello''" "Some ''tok''" state0 ValueError 0 5]
  by (simp add: attempt_raises_def world_flaky_def world_value_error_def state0_def)

text \<open>
  The claim as the specification words it, for exceptions of any type, fails: a
  \<open>ValueError\<close> out of the HTTP call reaches the caller of \<open>push_pushplus\<close> after one call,
  with no retry.
\<close>

theorem pushplus_value_error_counterexample:
  "http world_value_error 0
     (pushplus_request (PushNotification config0) ''hello'' (Some ''tok'')) = Inl ValueError \<and>
   fst (push_pushplus world_value_error (PushNotification config0) ''hello'' (Some ''tok'')
     state0) = Inl ValueError \<and>
   length (https_of (trace (snd (push_pushplus world_value_error (PushNotification config0)
     ''hello'' (Some ''tok'') state0)))) = 1 \<and>
   sleeps_of (trace (snd (push_pushplus world_value_error (PushNotification config0)
     ''hello'' (Some ''tok'') state0))) = []"
  by (simp add: push_pushplus_def push_pushplus_loop.simps pushplus_try_def requests_send_def
      world_value_error_def state0_def)

section \<open>Telegram: two calls\<close>

text \<open>
  The sender makes one HTTP call with the \<open>proxies\<close> argument and, only when that attempt
  raises, exactly one more, without it; there is no loop and no sleep. It returns \<open>True\<close>
  when one of the two attempts succeeds and \<open>False\<close> when both fail; it never raises.
\<close>

lemma telegram_two_calls:
  "fst (push_telegram w nf content bot_token chat_id s) =
     Inr (PyBool
       (transport_succeeds
          (http w (http_calls s) (telegram_request nf content bot_token chat_id True)) \<or>
        transport_succeeds
          (http w (Suc (http_calls s)) (telegram_request nf content bot_token chat_id False)))) \<and>
   https_of (trace (snd (push_telegram w nf content bot_token chat_id s))) =
     https_of (trace s) @
       (if transport_succeeds
             (http w (http_calls s) (telegram_request nf content bot_token chat_id True))
        then [telegram_request nf content bot_token chat_id True]
        else [telegram_request nf content bot_token chat_id True,
              telegram_request nf content bot_token chat_id False]) \<and>
   sleeps_of (trace (snd (push_telegram w nf content bot_token chat_id s))) =
     sleeps_of (trace s)"
  by (auto simp: push_telegram_def telegram_fallback_def requests_send_def logger_def
      transport_succeeds_def attempt_raises_def https_of_append sleeps_of_append
      split: sum.splits)

text \<open>
  C6. The claim has the attempt that follows a failed proxied attempt direct, and so has
  the docstring of \<open>push_telegram\<close>. The code does not do that. Its second call leaves the
  \<open>proxies\<close> argument out, and \<open>requests\<close> then takes the proxies from \<open>http_proxy\<close> and
  \<open>https_proxy\<close>, the very values the first call passed: under every configuration the
  two calls have the same proxies. Where both variables name a proxy that is down, while
  the direct route works, the sender makes its two calls through that proxy, both fail,
  and it returns \<open>False\<close>.
\<close>

theorem telegram_fallback_not_direct:
  "effective_proxies cfg
     (telegram_request (PushNotification cfg) content bot_token chat_id False) =
   effective_proxies cfg
     (telegram_request (PushNotification cfg) content bot_token chat_id True) \<and>
   map (https_route config_proxy)
     (https_of (trace (snd (push_telegram (world_proxy_down config_proxy)
        (PushNotification config_proxy) ''hello'' (Some ''bot'') (Some ''42'') state0)))) =
     [Some ''http://127.0.0.1:7890'', Some ''http://127.0.0.1:7890''] \<and>
   fst (push_telegram (world_proxy_down config_proxy) (PushNotification config_proxy) ''hello''
     (Some ''bot'') (Some ''42'') state0) = Inr (PyBool False) \<and>
   https_route config_proxy
     (telegram_request (PushNotification config_proxy) ''hello'' (Some ''bot'') (Some ''42'')
        False) \<noteq> None"
proof -
  have same: "effective_proxies c (telegram_request (PushNotification c) x b i False) =
      effective_proxies c (telegram_request (PushNotification c) x b i True)" for c x b i
    by (simp add: effective_proxies_def telegram_request_def PushNotification_def)
  have route: "https_route config_proxy
      (telegram_request (PushNotification config_proxy) ''hello'' (Some ''bot'') (Some ''42'') p) =
      Some ''http://127.0.0.1:7890''" for p
    by (simp add: https_route_def effective_proxies_def telegram_request_def
        PushNotification_def config_proxy_def config0_def)
  have fails: "\<not> transport_succeeds (http (world_proxy_down config_proxy) k
      (telegram_request (PushNotification config_proxy) ''hello'' (Some ''bot'') (Some ''42'') p))"
    for k p
    by (simp add: world_proxy_down_def route transport_succeeds_def attempt_raises_def)
  have z: "trace state0 = []"
    by (simp add: state0_def)
  show ?thesis
    using telegram_two_calls [of "world_proxy_down config_proxy" "PushNotification config_proxy"
        "''hello''" "Some ''bot''" "Some ''42''" state0]
    by (simp add: same route fails z)
qed

section \<open>DingTalk\<close>

lemma generate_dingtalk_sign_Some:
  "generate_dingtalk_sign timestamp (Some sec) = Inr (dingtalk_sign_spec timestamp sec)"
  by (simp add: generate_dingtalk_sign_def dingtalk_sign_spec_def encode_utf8_def)

lemma generate_dingtalk_sign_None: "generate_dingtalk_sign timestamp None = Inl AttributeError"
  by (simp add: generate_dingtalk_sign_def)

lemma dingtalk_check_True:
  "dingtalk_check r = Inr True \<longleftrightarrow>
     \<not> (400 \<le> status_code r \<and> status_code r < 600) \<and>
     (\<exists>kvs v. resp_json r = Some (JObj kvs) \<and> json_get (JObj kvs) ''errcode'' = Inr v \<and>
        py_eq_0 v)"
proof (cases "resp_json r")
  case None
  then show ?thesis
    by (simp add: dingtalk_check_def raise_for_status_def response_json_def)
next
  case (Some j)
  then show ?thesis
    by (cases j) (auto simp: dingtalk_check_def raise_for_status_def response_json_def)
qed

lemma dingtalk_try_ok:
  "fst (dingtalk_try w nf cfg content s) =
     dingtalk_attempt_ok w nf cfg content (http_calls s) (clock_reads s)"
  by (auto simp: dingtalk_try_def dingtalk_attempt_ok_def time_ms_def requests_send_def
      split: sum.splits)

lemma dingtalk_try_counters:
  "clock_reads (snd (dingtalk_try w nf cfg content s)) = Suc (clock_reads s)"
  "draws (snd (dingtalk_try w nf cfg content s)) = draws s"
  "http_calls (snd (dingtalk_try w nf cfg content s)) =
     http_calls s + length (dingtalk_call w nf cfg content (clock_reads s))"
  by (auto simp: dingtalk_try_def dingtalk_call_def time_ms_def requests_send_def logger_def
      split: sum.splits)

lemma dingtalk_try_wire:
  "wire (trace (snd (dingtalk_try w nf cfg content s))) =
     wire (trace s) @ dingtalk_call w nf cfg content (clock_reads s)"
  by (auto simp: dingtalk_try_def dingtalk_call_def time_ms_def requests_send_def logger_def
      wire_append split: sum.splits)

lemma dingtalk_loop_step:
  "attempt < attempts \<Longrightarrow>
   push_dingtalk_loop w nf cfg content attempts attempt s =
     (if fst (dingtalk_try w nf cfg content s)
      then (Inr (PyBool True), snd (dingtalk_try w nf cfg content s))
      else push_dingtalk_loop w nf cfg content attempts (Suc attempt)
             (if attempt < attempts - 1
              then wait_random w 2 5 DingTalkRetry (snd (dingtalk_try w nf cfg content s))
              else snd (dingtalk_try w nf cfg content s)))"
  by (subst push_dingtalk_loop.simps) (simp split: prod.splits)

lemma dingtalk_loop_stop:
  "push_dingtalk_loop w nf cfg content attempts attempts s = (Inr (PyBool False), s)"
  by (subst push_dingtalk_loop.simps) simp

text \<open>
  C3 (as amended: the status test is that of \<open>raise_for_status\<close>). An attempt of the
  DingTalk sender returns \<open>True\<close> only if its HTTP call came back with a response that
  passes the check, and a response passes the check exactly when its status is not a 4xx or
  5xx code and its JSON body is an object whose \<open>errcode\<close> equals 0. A response with HTTP
  200 and body \<open>{"errcode":1,"errmsg":x}\<close> does not pass; an attempt that did not return
  \<open>True\<close> is followed by the next one, after a wait when attempts remain.
\<close>

theorem dingtalk_success_condition:
  "(dingtalk_check r = Inr True \<longleftrightarrow>
      \<not> (400 \<le> status_code r \<and> status_code r < 600) \<and>
      (\<exists>kvs v. resp_json r = Some (JObj kvs) \<and> json_get (JObj kvs) ''errcode'' = Inr v \<and>
         py_eq_0 v)) \<and>
   (fst (dingtalk_try w nf cfg content s) \<longrightarrow>
      (\<exists>sign r'. generate_dingtalk_sign (str_int (clock w (clock_reads s))) (DINGTALK_SECRET cfg)
           = Inr sign \<and>
         http w (http_calls s)
           (dingtalk_request nf cfg content (str_int (clock w (clock_reads s))) sign) = Inr r' \<and>
         dingtalk_check r' = Inr True)) \<and>
   (status_code r = 200 \<and>
    resp_json r = Some (JObj [(''errcode'', JInt 1), (''errmsg'', JStr x)]) \<longrightarrow>
      dingtalk_check r = Inr False) \<and>
   (attempt < attempts \<and> \<not> fst (dingtalk_try w nf cfg content s) \<longrightarrow>
      push_dingtalk_loop w nf cfg content attempts attempt s =
        push_dingtalk_loop w nf cfg content attempts (Suc attempt)
          (if attempt < attempts - 1
           then wait_random w 2 5 DingTalkRetry (snd (dingtalk_try w nf cfg content s))
           else snd (dingtalk_try w nf cfg content s)))"
proof (intro conjI impI)
  show "dingtalk_check r = Inr True \<longleftrightarrow>
      \<not> (400 \<le> status_code r \<and> status_code r < 600) \<and>
      (\<exists>kvs v. resp_json r = Some (JObj kvs) \<and> json_get (JObj kvs) ''errcode'' = Inr v \<and>
         py_eq_0 v)"
    by (rule dingtalk_check_True)
next
  assume "fst (dingtalk_try w nf cfg content s)"
  then have "dingtalk_attempt_ok w nf cfg content (http_calls s) (clock_reads s)"
    by (simp add: dingtalk_try_ok)
  then show "\<exists>sign r'. generate_dingtalk_sign (str_int (clock w (clock_reads s)))
           (DINGTALK_SECRET cfg) = Inr sign \<and>
         http w (http_calls s)
           (dingtalk_request nf cfg content (str_int (clock w (clock_reads s))) sign) = Inr r' \<and>
         dingtalk_check r' = Inr True"
    by (auto simp: dingtalk_attempt_ok_def split: sum.splits)
next
  assume "status_code r = 200 \<and>
    resp_json r = Some (JObj [(''errcode'', JInt 1), (''errmsg'', JStr x)])"
  then show "dingtalk_check r = Inr False"
    by (simp add: dingtalk_check_def raise_for_status_def response_json_def)
next
  assume "attempt < attempts \<and> \<not> fst (dingtalk_try w nf cfg content s)"
  then show "push_dingtalk_loop w nf cfg content attempts attempt s =
        push_dingtalk_loop w nf cfg content attempts (Suc attempt)
          (if attempt < attempts - 1
           then wait_random w 2 5 DingTalkRetry (snd (dingtalk_try w nf cfg content s))
           else snd (dingtalk_try w nf cfg content s))"
    by (simp add: dingtalk_loop_step)
qed

lemma world_errcode1_try:
  "\<not> fst (dingtalk_try world_errcode1 (PushNotification config0) config0 ''hello'' state0)"
  by (simp add: dingtalk_try_ok dingtalk_attempt_ok_def config0_def
      generate_dingtalk_sign_Some world_errcode1_def response_errcode1_def dingtalk_check_def
      raise_for_status_def response_json_def)

theorem dingtalk_success_condition_witness:
  "dingtalk_check response_ok = Inr True \<and>
   status_code response_errcode1 = 200 \<and>
   resp_json response_errcode1 = Some (JObj [(''errcode'', JInt 1), (''errmsg'', JStr ''x'')]) \<and>
   dingtalk_check response_errcode1 = Inr False \<and>
   (0::nat) < 3 \<and>
   \<not> fst (dingtalk_try world_errcode1 (PushNotification config0) config0 ''hello'' state0) \<and>
   push_dingtalk_loop world_errcode1 (PushNotification config0) config0 ''hello'' 3 0 state0 =
     push_dingtalk_loop world_errcode1 (PushNotification config0) config0 ''hello'' 3 (Suc 0)
       (wait_random world_errcode1 2 5 DingTalkRetry
          (snd (dingtalk_try world_errcode1 (PushNotification config0) config0 ''hello''
             state0)))"
  using dingtalk_success_condition [of response_errcode1 world_errcode1 "PushNotification config0"
      config0 "''hello''" state0 "''x''" 0 3]
    dingtalk_success_condition [of response_ok]
    world_errcode1_try
  by (simp add: response_errcode1_def response_ok_def)

text \<open>
  The claim as the specification words it, with success only on a 2xx status, fails: a
  response with status 300 and \<open>errcode\<close> 0 is not a 2xx response, \<open>raise_for_status\<close>
  lets it pass, and the sender returns \<open>True\<close> after that one call.
\<close>

theorem dingtalk_status_300_counterexample:
  "http world_300 (http_calls state0)
     (dingtalk_request (PushNotification config0) config0 ''hello''
        (str_int (clock world_300 0))
        (dingtalk_sign_spec (str_int (clock world_300 0)) ''testsecret'')) = Inr response_300 \<and>
   \<not> is_2xx response_300 \<and>
   fst (push_dingtalk world_300 (PushNotification config0) config0 ''hello'' state0) =
     Inr (PyBool True)"
proof -
  have "fst (dingtalk_try world_300 (PushNotification config0) config0 ''hello'' state0)"
    by (simp add: dingtalk_try_ok dingtalk_attempt_ok_def config0_def
        generate_dingtalk_sign_Some world_300_def response_300_def dingtalk_check_def
        raise_for_status_def response_json_def)
  then have "fst (push_dingtalk world_300 (PushNotification config0) config0 ''hello'' state0) =
     Inr (PyBool True)"
    by (simp add: push_dingtalk_def dingtalk_loop_step truthy_def config0_def)
  then show ?thesis
    by (simp add: world_300_def is_2xx_def response_300_def)
qed

text \<open>
  C7. When the DingTalk webhook is not configured (\<open>None\<close>, or the empty string), the
  sender returns \<open>False\<close> at once: it logs one error line and does nothing else, so it
  makes no HTTP call, draws no waiting time and does not sleep or retry.
\<close>

theorem dingtalk_no_webhook:
  assumes "DINGTALK_WEBHOOK cfg = None \<or> DINGTALK_WEBHOOK cfg = Some []"
  shows "push_dingtalk w nf cfg content s =
           (Inr (PyBool False), s\<lparr>trace := trace s @ [Log ERROR DingTalkNoWebhook]\<rparr>) \<and>
         https_of (trace (snd (push_dingtalk w nf cfg content s))) = https_of (trace s) \<and>
         sleeps_of (trace (snd (push_dingtalk w nf cfg content s))) = sleeps_of (trace s) \<and>
         http_calls (snd (push_dingtalk w nf cfg content s)) = http_calls s \<and>
         clock_reads (snd (push_dingtalk w nf cfg content s)) = clock_reads s"
  using assms
  by (auto simp: push_dingtalk_def truthy_def logger_def https_of_append sleeps_of_append)

theorem dingtalk_no_webhook_witness:
  "DINGTALK_WEBHOOK (config0\<lparr>DINGTALK_WEBHOOK := None\<rparr>) = None \<and>
   push_dingtalk world_flaky (PushNotification config0) (config0\<lparr>DINGTALK_WEBHOOK := None\<rparr>)
     ''hello'' state0 =
     (Inr (PyBool False), state0\<lparr>trace := [Log ERROR DingTalkNoWebhook]\<rparr>) \<and>
   https_of (trace (snd (push_dingtalk world_flaky (PushNotification config0)
     (config0\<lparr>DINGTALK_WEBHOOK := None\<rparr>) ''hello'' state0))) = []"
  using dingtalk_no_webhook [of "config0\<lparr>DINGTALK_WEBHOOK := None\<rparr>" world_flaky
      "PushNotification config0" "''hello''" state0]
  by (simp add: state0_def)

lemma dingtalk_loop_unrolled:
  "push_dingtalk_loop w nf cfg content 3 0 s =
     (if fst (dingtalk_try w nf cfg content s)
      then (Inr (PyBool True), snd (dingtalk_try w nf cfg content s))
      else if fst (dingtalk_try w nf cfg content
                (wait_random w 2 5 DingTalkRetry (snd (dingtalk_try w nf cfg content s))))
      then (Inr (PyBool True),
            snd (dingtalk_try w nf cfg content
              (wait_random w 2 5 DingTalkRetry (snd (dingtalk_try w nf cfg content s)))))
      else (Inr (PyBool
              (fst (dingtalk_try w nf cfg content
                 (wait_random w 2 5 DingTalkRetry
                    (snd (dingtalk_try w nf cfg content
                       (wait_random w 2 5 DingTalkRetry
                          (snd (dingtalk_try w nf cfg content s))))))))),
            snd (dingtalk_try w nf cfg content
              (wait_random w 2 5 DingTalkRetry
                 (snd (dingtalk_try w nf cfg content
                    (wait_random w 2 5 DingTalkRetry
                       (snd (dingtalk_try w nf cfg content s)))))))))"
proof -
  have l3: "push_dingtalk_loop w nf cfg content 3 3 t = (Inr (PyBool False), t)" for t
    by (rule dingtalk_loop_stop)
  have l2: "push_dingtalk_loop w nf cfg content 3 2 t =
        (Inr (PyBool (fst (dingtalk_try w nf cfg content t))),
         snd (dingtalk_try w nf cfg content t))" for t
    using dingtalk_loop_step [of 2 3 w nf cfg content t] by (simp add: l3)
  have l1: "push_dingtalk_loop w nf cfg content 3 (Suc 0) t =
        (if fst (dingtalk_try w nf cfg content t)
         then (Inr (PyBool True), snd (dingtalk_try w nf cfg content t))
         else push_dingtalk_loop w nf cfg content 3 2
                (wait_random w 2 5 DingTalkRetry (snd (dingtalk_try w nf cfg content t))))" for t
    using dingtalk_loop_step [of "Suc 0" 3 w nf cfg content t] by (simp add: eval_nat_numeral)
  have l0: "push_dingtalk_loop w nf cfg content 3 0 t =
        (if fst (dingtalk_try w nf cfg content t)
         then (Inr (PyBool True), snd (dingtalk_try w nf cfg content t))
         else push_dingtalk_loop w nf cfg content 3 (Suc 0)
                (wait_random w 2 5 DingTalkRetry (snd (dingtalk_try w nf cfg content t))))" for t
    using dingtalk_loop_step [of 0 3 w nf cfg content t] by simp
  show ?thesis
    by (simp add: l0 l1 l2)
qed

lemma dingtalk_attempt_ok_None:
  "DINGTALK_SECRET cfg = None \<Longrightarrow> \<not> dingtalk_attempt_ok w nf cfg content h c"
  by (simp add: dingtalk_attempt_ok_def generate_dingtalk_sign_None)

lemma dingtalk_call_None: "DINGTALK_SECRET cfg = None \<Longrightarrow> dingtalk_call w nf cfg content c = []"
  by (simp add: dingtalk_call_def generate_dingtalk_sign_None)

lemma dingtalk_call_Some:
  "DINGTALK_SECRET cfg = Some sec \<Longrightarrow>
   dingtalk_call w nf cfg content c =
     [Http (dingtalk_request nf cfg content (str_int (clock w c))
        (dingtalk_sign_spec (str_int (clock w c)) sec))]"
  by (simp add: dingtalk_call_def generate_dingtalk_sign_Some)

text \<open>
  C8. With a webhook configured, the DingTalk sender makes at most three attempts. Each
  attempt reads the clock anew and sends to the webhook URL extended by that reading and
  by the signature of that reading. An attempt that is not a qualifying success is
  followed, unless it is the third, by a sleep of 2 to 5 seconds, both included, drawn at
  random. The sender returns \<open>True\<close> at the first qualifying success, making no further
  attempt, and \<open>False\<close> when all three attempts have failed.
\<close>

theorem dingtalk_three_attempts:
  assumes "truthy (DINGTALK_WEBHOOK cfg)"
  shows
    "fst (push_dingtalk w nf cfg content s) =
       Inr (PyBool (dingtalk_ok_at w nf cfg content s 0 \<or> dingtalk_ok_at w nf cfg content s 1 \<or>
                    dingtalk_ok_at w nf cfg content s 2)) \<and>
     wire (trace (snd (push_dingtalk w nf cfg content s))) =
       wire (trace s) @ dingtalk_call_at w nf cfg content s 0 @
         (if dingtalk_ok_at w nf cfg content s 0 then []
          else Sleep (randint_value w 2 5 (draws s)) # dingtalk_call_at w nf cfg content s 1 @
            (if dingtalk_ok_at w nf cfg content s 1 then []
             else Sleep (randint_value w 2 5 (Suc (draws s))) #
                  dingtalk_call_at w nf cfg content s 2)) \<and>
     clock_reads (snd (push_dingtalk w nf cfg content s)) =
       clock_reads s +
         (if dingtalk_ok_at w nf cfg content s 0 then 1
          else if dingtalk_ok_at w nf cfg content s 1 then 2 else 3) \<and>
     2 \<le> randint_value w 2 5 k \<and> randint_value w 2 5 k \<le> 5 \<and>
     dingtalk_call_at w nf cfg content s j =
       (case DINGTALK_SECRET cfg of
          None \<Rightarrow> []
        | Some sec \<Rightarrow>
            [Http (dingtalk_request nf cfg content (str_int (clock w (clock_reads s + j)))
               (dingtalk_sign_spec (str_int (clock w (clock_reads s + j))) sec))])"
proof -
  have run: "push_dingtalk w nf cfg content s = push_dingtalk_loop w nf cfg content 3 0 s"
    using assms by (simp add: push_dingtalk_def)
  have range: "2 \<le> randint_value w 2 5 k \<and> randint_value w 2 5 k \<le> 5"
    using randint_value_range [of 2 5 w k] by simp
  show ?thesis
  proof (cases "DINGTALK_SECRET cfg")
    case None
    then show ?thesis
      using range
      by (simp add: run dingtalk_loop_unrolled dingtalk_try_ok dingtalk_try_counters
          dingtalk_try_wire wait_random_effect wire_append dingtalk_ok_at_def
          dingtalk_call_at_def dingtalk_attempt_ok_None dingtalk_call_None)
  next
    case (Some sec)
    then show ?thesis
      using range
      by (simp add: run dingtalk_loop_unrolled dingtalk_try_ok dingtalk_try_counters
          dingtalk_try_wire wait_random_effect wire_append dingtalk_ok_at_def
          dingtalk_call_at_def dingtalk_call_Some)
  qed
qed

lemma world_errcode1_never_ok:
  "\<not> dingtalk_ok_at world_errcode1 (PushNotification config0) config0 ''hello'' state0 k"
  by (simp add: dingtalk_ok_at_def dingtalk_attempt_ok_def config0_def
      generate_dingtalk_sign_Some world_errcode1_def response_errcode1_def dingtalk_check_def
      raise_for_status_def response_json_def)

theorem dingtalk_three_attempts_witness:
  "truthy (DINGTALK_WEBHOOK config0) \<and>
   fst (push_dingtalk world_errcode1 (PushNotification config0) config0 ''hello'' state0) =
     Inr (PyBool False) \<and>
   sleeps_of (wire (trace (snd (push_dingtalk world_errcode1 (PushNotification config0) config0
     ''hello'' state0)))) = [2, 3] \<and>
   map req_url (https_of (wire (trace (snd (push_dingtalk world_errcode1
     (PushNotification config0) config0 ''hello'' state0))))) =
     [''https://oapi.dingtalk.com/robot/send?access_token=t&timestamp='' @ str_int 1700000000000
        @ ''&sign='' @ dingtalk_sign_spec (str_int 1700000000000) ''testsecret'',
      ''https://oapi.dingtalk.com/robot/send?access_token=t&timestamp='' @ str_int 1700000003000
        @ ''&sign='' @ dingtalk_sign_spec (str_int 1700000003000) ''testsecret'',
      ''https://oapi.dingtalk.com/robot/send?access_token=t&timestamp='' @ str_int 1700000006000
        @ ''&sign='' @ dingtalk_sign_spec (str_int 1700000006000) ''testsecret''] \<and>
   clock_reads (snd (push_dingtalk world_errcode1 (PushNotification config0) config0
     ''hello'' state0)) = 3"
proof -
  have t: "truthy (DINGTALK_WEBHOOK config0)"
    by (simp add: truthy_def config0_def)
  have c: "dingtalk_call_at world_errcode1 (PushNotification config0) config0 ''hello'' state0 j =
       [Http (dingtalk_request (PushNotification config0) config0 ''hello''
          (str_int (clock world_errcode1 (clock_reads state0 + j)))
          (dingtalk_sign_spec (str_int (clock world_errcode1 (clock_reads state0 + j)))
             ''testsecret''))]" for j
    using dingtalk_three_attempts [OF t, of world_errcode1 "PushNotification config0" "''hello''"
        state0 0 j]
    by (simp add: config0_def)
  have r: "randint_value world_errcode1 2 5 k = 2 + int k mod 4" for k
    by (simp add: randint_value_def world_errcode1_def)
  have k: "clock world_errcode1 k = 1700000000000 + 3000 * int k" for k
    by (simp add: world_errcode1_def)
  have u: "py_str (DINGTALK_WEBHOOK config0) =
      ''https://oapi.dingtalk.com/robot/send?access_token=t''"
    by (simp add: py_str_def config0_def)
  have z: "draws state0 = 0" "clock_reads state0 = 0" "trace state0 = []"
    by (simp_all add: state0_def)
  show ?thesis
    using dingtalk_three_attempts [OF t, of world_errcode1 "PushNotification config0" "''hello''"
        state0 0 0] t
    by (simp add: world_errcode1_never_ok c r k u z dingtalk_request_def)
qed

text \<open>
  C10. With a webhook configured and the secret \<open>None\<close>, the sender checks nothing before
  the loop. On each of the three attempts the clock is read and signing raises
  \<open>AttributeError\<close>, which the handler of the attempt catches and logs, before any HTTP
  call; the first two attempts are followed by a sleep; and the sender returns \<open>False\<close>,
  raising nothing.
\<close>

theorem dingtalk_missing_secret:
  assumes "truthy (DINGTALK_WEBHOOK cfg)" and "DINGTALK_SECRET cfg = None"
  shows
    "push_dingtalk w nf cfg content s =
       (Inr (PyBool False),
        s\<lparr>draws := draws s + 2, clock_reads := clock_reads s + 3,
          trace := trace s @
            [Log ERROR (DingTalkException AttributeError),
             Log INFO (DingTalkRetry (randint_value w 2 5 (draws s))),
             Sleep (randint_value w 2 5 (draws s)),
             Log ERROR (DingTalkException AttributeError),
             Log INFO (DingTalkRetry (randint_value w 2 5 (Suc (draws s)))),
             Sleep (randint_value w 2 5 (Suc (draws s))),
             Log ERROR (DingTalkException AttributeError)]\<rparr>) \<and>
     https_of (trace (snd (push_dingtalk w nf cfg content s))) = https_of (trace s) \<and>
     http_calls (snd (push_dingtalk w nf cfg content s)) = http_calls s"
proof -
  have t: "dingtalk_try w nf cfg content t =
      (False, t\<lparr>clock_reads := Suc (clock_reads t),
                trace := trace t @ [Log ERROR (DingTalkException AttributeError)]\<rparr>)" for t
    using assms(2)
    by (simp add: dingtalk_try_def time_ms_def generate_dingtalk_sign_None logger_def)
  have "push_dingtalk w nf cfg content s = push_dingtalk_loop w nf cfg content 3 0 s"
    using assms(1) by (simp add: push_dingtalk_def)
  then have run: "push_dingtalk w nf cfg content s =
       (Inr (PyBool False),
        s\<lparr>draws := draws s + 2, clock_reads := clock_reads s + 3,
          trace := trace s @
            [Log ERROR (DingTalkException AttributeError),
             Log INFO (DingTalkRetry (randint_value w 2 5 (draws s))),
             Sleep (randint_value w 2 5 (draws s)),
             Log ERROR (DingTalkException AttributeError),
             Log INFO (DingTalkRetry (randint_value w 2 5 (Suc (draws s)))),
             Sleep (randint_value w 2 5 (Suc (draws s))),
             Log ERROR (DingTalkException AttributeError)]\<rparr>)"
    by (simp add: dingtalk_loop_unrolled t wait_random_effect)
  show ?thesis
    unfolding run by (simp add: https_of_append)
qed

theorem dingtalk_missing_secret_witness:
  "truthy (DINGTALK_WEBHOOK (config0\<lparr>DINGTALK_SECRET := None\<rparr>)) \<and>
   DINGTALK_SECRET (config0\<lparr>DINGTALK_SECRET := None\<rparr>) = None \<and>
   fst (push_dingtalk world_flaky (PushNotification config0) (config0\<lparr>DINGTALK_SECRET := None\<rparr>)
     ''hello'' state0) = Inr (PyBool False) \<and>
   sleeps_of (trace (snd (push_dingtalk world_flaky (PushNotification config0)
     (config0\<lparr>DINGTALK_SECRET := None\<rparr>) ''hello'' state0))) = [5, 5] \<and>
   https_of (trace (snd (push_dingtalk world_flaky (PushNotification config0)
     (config0\<lparr>DINGTALK_SECRET := None\<rparr>) ''hello'' state0))) = []"
proof -
  have t: "truthy (DINGTALK_WEBHOOK (config0\<lparr>DINGTALK_SECRET := None\<rparr>))"
    by (simp add: truthy_def config0_def)
  show ?thesis
    using dingtalk_missing_secret [OF t, of world_flaky "PushNotification config0" "''hello''"
        state0] t
    by (simp add: state0_def randint_value_def world_flaky_def)
qed

section \<open>Evaluating the hash on concrete input\<close>

text \<open>
  Sums and rotations of 32-bit numerals are kept below \<open>2\<^sup>3\<^sup>2\<close> while they are
  computed: \<open>take_bit 32\<close> is the identity on a 32-bit word.
\<close>

lemma take_bit_word32: "take_bit 32 (x :: word32) = x"
  by (simp add: take_bit_word_eq_self)

lemma replicate_numeral: "replicate (numeral k) x = x # replicate (pred_numeral k) x"
  by (simp add: numeral_eq_Suc)

lemma rotr_eval: "rotr n x = take_bit 32 (drop_bit n x OR push_bit (32 - n) x)"
  by (simp add: rotr_def take_bit_word32)

lemma round_step_eval:
  "round_step [a, b, c, d, e, f, g, h] (k, w) =
     (let t1 = take_bit 32 (h + bsig1 e + Ch e f g + k + w)
      in [take_bit 32 (t1 + (bsig0 a + Maj a b c)), a, b, c, take_bit 32 (d + t1), e, f, g])"
  by (simp add: Let_def take_bit_word32 ac_simps)

lemma expand_Suc:
  "expand (Suc n) [w0, w1, w2, w3, w4, w5, w6, w7, w8, w9, w10, w11, w12, w13, w14, w15] =
     w0 # expand n [w1, w2, w3, w4, w5, w6, w7, w8, w9, w10, w11, w12, w13, w14, w15,
                    take_bit 32 (ssig1 w14 + w9 + ssig0 w1 + w0)]"
  by (simp only: expand.simps take_bit_word32)

lemma expand_numeral:
  "expand (numeral k) [w0, w1, w2, w3, w4, w5, w6, w7, w8, w9, w10, w11, w12, w13, w14, w15] =
     w0 # expand (pred_numeral k)
            [w1, w2, w3, w4, w5, w6, w7, w8, w9, w10, w11, w12, w13, w14, w15,
             take_bit 32 (ssig1 w14 + w9 + ssig0 w1 + w0)]"
  by (simp only: numeral_eq_Suc [of k] expand_Suc)

lemma expand_0: "expand 0 ws = ws"
  by simp

lemma compress_eval:
  "compress hs block =
     map (take_bit 32) (map2 (+) hs (foldl round_step hs (zip sha256_K (message_schedule block))))"
  unfolding compress_def by (simp add: take_bit_word32)

lemmas sha256_eval =
  rotr_eval Ch_def Maj_def bsig0_def bsig1_def ssig0_def ssig1_def round_step_eval
  expand_Suc expand_numeral expand_0 compress_eval message_schedule_def be_word32_def
  sha256_K_def

lemma vec_compress1:
  "compress sha256_H0
     [66, 83, 69, 66, 69, 83, 85, 68, 83, 66, 54, 54, 54, 54, 54, 54,
      54, 54, 54, 54, 54, 54, 54, 54, 54, 54, 54, 54, 54, 54, 54, 54,
      54, 54, 54, 54, 54, 54, 54, 54, 54, 54, 54, 54, 54, 54, 54, 54,
      54, 54, 54, 54, 54, 54, 54, 54, 54, 54, 54, 54, 54, 54, 54, 54] =
     [751815248, 3574121933, 2710761601, 2193932529, 1612747203, 322145898, 4257509512, 487468646]"
  by (simp add: sha256_eval sha256_H0_def del: expand.simps(1) round_step.simps(1))

lemma vec_compress2:
  "compress 
     [751815248, 3574121933, 2710761601, 2193932529, 1612747203, 322145898, 4257509512, 487468646]
     [49, 55, 48, 48, 48, 48, 48, 48, 48, 48, 48, 48, 48, 10, 116, 101,
      115, 116, 115, 101, 99, 114, 101, 116, 128, 0, 0, 0, 0, 0, 0, 0,
      0, 0, 0, 0, 0, 0, 0, 0, 0, 0, 0, 0, 0, 0, 0, 0,
      0, 0, 0, 0, 0, 0, 0, 0, 0, 0, 0, 0, 0, 0, 2, 192] =
     [3771522430, 781651433, 1485088463, 1422209489, 52667946, 3408189500, 3873575846, 4222520823]"
  by (simp add: sha256_eval sha256_H0_def del: expand.simps(1) round_step.simps(1))

lemma vec_compress3:
  "compress sha256_H0
     [40, 57, 47, 40, 47, 57, 63, 46, 57, 40, 92, 92, 92, 92, 92, 92,
      92, 92, 92, 92, 92, 92, 92, 92, 92, 92, 92, 92, 92, 92, 92, 92,
      92, 92, 92, 92, 92, 92, 92, 92, 92, 92, 92, 92, 92, 92, 92, 92,
      92, 92, 92, 92, 92, 92, 92, 92, 92, 92, 92, 92, 92, 92, 92, 92] =
     [601997715, 533180271, 2430348915, 4172367086, 48212718, 1869814336, 2553270024, 3152535468]"
  by (simp add: sha256_eval sha256_H0_def del: expand.simps(1) round_step.simps(1))

lemma vec_compress4:
  "compress 
     [601997715, 533180271, 2430348915, 4172367086, 48212718, 1869814336, 2553270024, 3152535468]
     [224, 204, 221, 126, 46, 151, 13, 233, 88, 132, 166, 207, 84, 197, 49, 209,
      3, 35, 166, 42, 203, 36, 216, 60, 230, 226, 19, 166, 251, 174, 141, 247,
      128, 0, 0, 0, 0, 0, 0, 0, 0, 0, 0, 0, 0, 0, 0, 0,
      0, 0, 0, 0, 0, 0, 0, 0, 0, 0, 0, 0, 0, 0, 3, 0] =
     [2001614792, 648820127, 2315998068, 2528469240, 111661569, 136903633, 2134141490, 1427424057]"
  by (simp add: sha256_eval sha256_H0_def del: expand.simps(1) round_step.simps(1))

lemma vec_key: "encode_utf8 ''testsecret'' = [116, 101, 115, 116, 115, 101, 99, 114, 101, 116]"
  by (simp add: encode_utf8_def)

lemma vec_msg:
  "encode_utf8 (''1700000000000'' @ [CHR 0x0A] @ ''testsecret'') =
     [49, 55, 48, 48, 48, 48, 48, 48, 48, 48, 48, 48, 48, 10, 116, 101,
      115, 116, 115, 101, 99, 114, 101, 116]"
  by (simp add: encode_utf8_def)

lemma vec_key_block:
  "hmac_key_block [116, 101, 115, 116, 115, 101, 99, 114, 101, 116] =
     [116, 101, 115, 116, 115, 101, 99, 114, 101, 116, 0, 0, 0, 0, 0, 0,
      0, 0, 0, 0, 0, 0, 0, 0, 0, 0, 0, 0, 0, 0, 0, 0,
      0, 0, 0, 0, 0, 0, 0, 0, 0, 0, 0, 0, 0, 0, 0, 0,
      0, 0, 0, 0, 0, 0, 0, 0, 0, 0, 0, 0, 0, 0, 0, 0]"
  by (simp add: hmac_key_block_def Let_def replicate_numeral)

lemma vec_inner:
  "sha256
     [66, 83, 69, 66, 69, 83, 85, 68, 83, 66, 54, 54, 54, 54, 54, 54,
      54, 54, 54, 54, 54, 54, 54, 54, 54, 54, 54, 54, 54, 54, 54, 54,
      54, 54, 54, 54, 54, 54, 54, 54, 54, 54, 54, 54, 54, 54, 54, 54,
      54, 54, 54, 54, 54, 54, 54, 54, 54, 54, 54, 54, 54, 54, 54, 54,
      49, 55, 48, 48, 48, 48, 48, 48, 48, 48, 48, 48, 48, 10, 116, 101,
      115, 116, 115, 101, 99, 114, 101, 116] =
     [224, 204, 221, 126, 46, 151, 13, 233, 88, 132, 166, 207, 84, 197, 49, 209,
      3, 35, 166, 42, 203, 36, 216, 60, 230, 226, 19, 166, 251, 174, 141, 247]"
  by (simp add: sha256_def sha256_pad_def length_bytes_def replicate_numeral word32_bytes_def
      vec_compress1 vec_compress2)

lemma vec_outer:
  "sha256
     [40, 57, 47, 40, 47, 57, 63, 46, 57, 40, 92, 92, 92, 92, 92, 92,
      92, 92, 92, 92, 92, 92, 92, 92, 92, 92, 92, 92, 92, 92, 92, 92,
      92, 92, 92, 92, 92, 92, 92, 92, 92, 92, 92, 92, 92, 92, 92, 92,
      92, 92, 92, 92, 92, 92, 92, 92, 92, 92, 92, 92, 92, 92, 92, 92,
      224, 204, 221, 126, 46, 151, 13, 233, 88, 132, 166, 207, 84, 197, 49, 209,
      3, 35, 166, 42, 203, 36, 216, 60, 230, 226, 19, 166, 251, 174, 141, 247] =
     [119, 78, 55, 200, 38, 172, 53, 159, 138, 11, 83, 116, 150, 181, 96, 248,
      6, 167, 210, 1, 8, 40, 251, 209, 127, 52, 106, 50, 85, 20, 195, 57]"
  by (simp add: sha256_def sha256_pad_def length_bytes_def replicate_numeral word32_bytes_def
      vec_compress3 vec_compress4)

lemma vec_hmac:
  "hmac_sha256 (encode_utf8 ''testsecret'')
     (encode_utf8 (''1700000000000'' @ [CHR 0x0A] @ ''testsecret'')) =
     [119, 78, 55, 200, 38, 172, 53, 159, 138, 11, 83, 116, 150, 181, 96, 248,
      6, 167, 210, 1, 8, 40, 251, 209, 127, 52, 106, 50, 85, 20, 195, 57]"
  unfolding vec_key vec_msg hmac_sha256_def vec_key_block
  by (simp add: vec_inner vec_outer)

lemma vec_b64:
  "decode_utf8 (b64encode
     [119, 78, 55, 200, 38, 172, 53, 159, 138, 11, 83, 116, 150, 181, 96, 248,
      6, 167, 210, 1, 8, 40, 251, 209, 127, 52, 106, 50, 85, 20, 195, 57]) =
     ''d043yCasNZ+KC1N0lrVg+Aan0gEIKPvRfzRqMlUUwzk=''"
  by (simp add: decode_utf8_def b64_char_def b64_alphabet_def encode_utf8_def Let_def char_of_def
      bit_Suc_0_iff)

lemma vec_sign:
  "generate_dingtalk_sign ''1700000000000'' (Some ''testsecret'') =
     Inr ''d043yCasNZ+KC1N0lrVg+Aan0gEIKPvRfzRqMlUUwzk=''"
  unfolding generate_dingtalk_sign_def option.case Let_def vec_hmac vec_b64 ..


text \<open>
  C2. For every timestamp and every secret string the helper returns the base64 text of
  the HMAC-SHA256 code, keyed with the UTF-8 bytes of the secret, of the UTF-8 bytes of
  timestamp, newline, secret. It reads nothing but its two arguments, so equal arguments
  give equal results. For timestamp "1700000000000" and secret "testsecret" the result is
  "d043yCasNZ+KC1N0lrVg+Aan0gEIKPvRfzRqMlUUwzk=", the value that Python's \<open>hmac\<close>,
  \<open>hashlib\<close> and \<open>base64\<close> give for "1700000000000\ntestsecret".
\<close>

theorem generate_dingtalk_sign_hmac:
  "generate_dingtalk_sign timestamp (Some sec) = Inr (dingtalk_sign_spec timestamp sec) \<and>
   generate_dingtalk_sign timestamp (Some sec) =
     Inr (decode_utf8 (b64encode (hmac_sha256 (encode_utf8 sec)
       (encode_utf8 (timestamp @ [CHR 0x0A] @ sec))))) \<and>
   (timestamp = timestamp' \<and> secret = secret' \<longrightarrow>
      generate_dingtalk_sign timestamp secret = generate_dingtalk_sign timestamp' secret') \<and>
   generate_dingtalk_sign ''1700000000000'' (Some ''testsecret'') =
     Inr ''d043yCasNZ+KC1N0lrVg+Aan0gEIKPvRfzRqMlUUwzk='' \<and>
   dingtalk_sign_spec ''1700000000000'' ''testsecret'' =
     ''d043yCasNZ+KC1N0lrVg+Aan0gEIKPvRfzRqMlUUwzk=''"
proof -
  have spec: "generate_dingtalk_sign t (Some k) = Inr (dingtalk_sign_spec t k)" for t k
    by (simp add: generate_dingtalk_sign_def dingtalk_sign_spec_def encode_utf8_def)
  have "generate_dingtalk_sign timestamp (Some sec) =
     Inr (decode_utf8 (b64encode (hmac_sha256 (encode_utf8 sec)
       (encode_utf8 (timestamp @ [CHR 0x0A] @ sec)))))"
    by (simp add: generate_dingtalk_sign_def)
  moreover have "dingtalk_sign_spec ''1700000000000'' ''testsecret'' =
     ''d043yCasNZ+KC1N0lrVg+Aan0gEIKPvRfzRqMlUUwzk=''"
    using vec_sign spec [of "''1700000000000''" "''testsecret''"] by simp
  ultimately show ?thesis
    using vec_sign spec by simp
qed

theorem generate_dingtalk_sign_hmac_witness:
  "''1700000000000'' = ''1700000000000'' \<and> Some ''testsecret'' = Some ''testsecret'' \<and>
   generate_dingtalk_sign ''1700000000000'' (Some ''testsecret'') =
     generate_dingtalk_sign ''1700000000000'' (Some ''testsecret'') \<and>
   generate_dingtalk_sign ''1700000000000'' (Some ''testsecret'') =
     Inr (dingtalk_sign_spec ''1700000000000'' ''testsecret'')"
  using generate_dingtalk_sign_hmac [of "''1700000000000''" "''testsecret''"
      "''1700000000000''" "Some ''testsecret''" "Some ''testsecret''"]
  by simp

end
